theory Spec2Isabelle
  imports Main "HOL-Library.Word"
begin

unbundle bit_operations_syntax

section \<open>Machine integers, byte buffers and failures\<close>

text \<open>
  The code runs on a 64-bit little-endian target. \<open>u8\<close>, \<open>u32\<close> and \<open>u64\<close> are words:
  \<open>+\<close> and \<open>*\<close> wrap around as the C operators on unsigned types do, and \<open>\<le>\<close>, \<open><\<close>
  compare unsigned values. A buffer is the list of its bytes; a pointer that the code
  tests against \<open>NULL\<close> is an \<open>option\<close>.
\<close>

type_synonym u8 = "8 word"
type_synonym u32 = "32 word"
type_synonym u64 = "64 word"

text \<open>
  Every function of the two files returns \<open>bool\<close> (or a pointer) and logs a message
  before each \<open>return false\<close>. The model names each failing return with the failure kind
  of the specification's taxonomy: \<open>"Invalid parameters!"\<close> is \<open>InvalidArgument\<close>, a failed
  collaborator read is \<open>IOError\<close>, a bad magic, count, size or type is \<open>InvalidFormat\<close>, a
  failed hash-layer validation is \<open>IntegrityError\<close>, a path the store does not resolve is
  \<open>NotFound\<close>, a failed allocation is \<open>OutOfMemory\<close>. \<open>Inr\<close> is the C \<open>true\<close>.
\<close>

datatype error = InvalidArgument | InvalidFormat | NotFound | IntegrityError | IOError | OutOfMemory

text \<open>\<open>__builtin_bswap32\<close>.\<close>

definition bswap32 :: "u32 \<Rightarrow> u32" where
  "bswap32 x =
     push_bit 24 (x AND 0xFF) OR push_bit 8 (x AND 0xFF00) OR
     (drop_bit 8 x AND 0xFF00) OR (drop_bit 24 x AND 0xFF)"

text \<open>
  A \<open>u32\<close> variable and the four bytes it occupies in memory (little-endian): the code
  passes \<open>&magic\<close> as an output buffer and then reads \<open>magic\<close>.
\<close>

definition u32_of_bytes :: "u8 \<Rightarrow> u8 \<Rightarrow> u8 \<Rightarrow> u8 \<Rightarrow> u32" where
  "u32_of_bytes b0 b1 b2 b3 =
     ucast b0 OR push_bit 8 (ucast b1) OR push_bit 16 (ucast b2) OR push_bit 24 (ucast b3)"

fun load_u32 :: "u8 list \<Rightarrow> u32" where
  "load_u32 (b0 # b1 # b2 # b3 # _) = u32_of_bytes b0 b1 b2 b3"
| "load_u32 _ = 0"

definition store_u32 :: "u32 \<Rightarrow> u8 list" where
  "store_u32 x = [ucast x, ucast (drop_bit 8 x), ucast (drop_bit 16 x), ucast (drop_bit 24 x)]"

text \<open>The first four bytes of a buffer read as a big-endian number.\<close>

fun be32 :: "u8 list \<Rightarrow> u32" where
  "be32 (b0 # b1 # b2 # b3 # _) = u32_of_bytes b3 b2 b1 b0"
| "be32 _ = 0"

text \<open>
  A read that delivers the bytes \<open>bs\<close> into a buffer overwrites the start of the buffer
  and leaves the rest as it was.
\<close>

definition buf_write :: "u8 list \<Rightarrow> u8 list \<Rightarrow> u8 list" where
  "buf_write buf bs = bs @ drop (length bs) buf"

section \<open>pfs.c: the partition filesystem parser\<close>

subsection \<open>Data\<close>

text \<open>
  The enumerations of the section context are declared outside the two files; only the
  enumerators that \<open>pfsInitializeContext\<close> tests are named, every other value is
  \<open>_Other\<close>.
\<close>

datatype NcaFsSectionType = NcaFsSectionType_PartitionFs | NcaFsSectionType_Other nat
datatype NcaFsType = NcaFsType_PartitionFs | NcaFsType_Other nat
datatype NcaHashType = NcaHashType_HierarchicalSha256 | NcaHashType_Other nat

record NcaHierarchicalSha256 =
  hash_target_layer_offset :: u64
  hash_target_layer_size :: u64

record NcaFsHeader =
  fs_type :: NcaFsType
  hash_type :: NcaHashType
  hierarchical_sha256 :: NcaHierarchicalSha256

record NcaFsSectionContext =
  section_type :: NcaFsSectionType
  nca_header :: "NcaFsHeader option"
  section_size :: u64

record PartitionFileSystemHeader =
  magic :: u32
  entry_count :: u32
  name_table_size :: u32

record PartitionFileSystemEntry =
  entry_offset :: u64
  entry_size :: u64
  name_offset :: u32

record PartitionFileSystemContext =
  nca_fs_ctx :: "NcaFsSectionContext option"
  ctx_offset :: u64
  ctx_size :: u64
  is_exefs :: bool
  header_size :: u64
  ctx_header :: "u8 list option"

subsection \<open>What the parser is given\<close>

text \<open>
  \<open>pfs.c\<close> calls the content-section collaborator (\<open>ncaValidateHierarchicalSha256Offsets\<close>,
  \<open>ncaReadFsSection\<close>), the allocator, and the declarations of \<open>pfs.h\<close>, none of which is
  part of the two files. They are parameters of the model:
  \<^item> \<open>ncaReadFsSection E nca read_size offset\<close> is \<open>None\<close> when the checked read fails and
    the bytes read otherwise;
  \<^item> \<open>calloc_ok E n\<close> says whether an allocation of \<open>n\<close> bytes succeeds;
  \<^item> \<open>header_overlay E\<close> reads the fields of a \<open>PartitionFileSystemHeader\<close> laid over a
    buffer (the fields as the CPU loads them);
  \<^item> \<open>pfsGetEntryByName\<close> and \<open>pfsFreeContext\<close> are the inline helpers of \<open>pfs.h\<close>.
\<close>

record pfs_env =
  ncaValidateHierarchicalSha256Offsets :: "NcaHierarchicalSha256 \<Rightarrow> u64 \<Rightarrow> bool"
  ncaReadFsSection :: "NcaFsSectionContext \<Rightarrow> u64 \<Rightarrow> u64 \<Rightarrow> u8 list option"
  calloc_ok :: "u64 \<Rightarrow> bool"
  sizeof_PartitionFileSystemHeader :: u64
  sizeof_PartitionFileSystemEntry :: u64
  header_overlay :: "u8 list \<Rightarrow> PartitionFileSystemHeader"
  PFS0_MAGIC :: u32
  NPDM_META_MAGIC :: u32
  pfsGetEntryByName :: "PartitionFileSystemContext \<Rightarrow> string \<Rightarrow> PartitionFileSystemEntry option"
  pfsFreeContext :: "PartitionFileSystemContext \<Rightarrow> PartitionFileSystemContext"

text \<open>
  The collaborator reads issued so far, oldest first: each is the pair of the size and
  the absolute offset handed to \<open>ncaReadFsSection\<close>.
\<close>

type_synonym trace = "(u64 \<times> u64) list"

subsection \<open>Reads\<close>

text \<open>
  \<open>pfsReadPartitionData(ctx, out, read_size, offset)\<close>. The result is the return value,
  the output buffer afterwards and the trace afterwards. The context is only read.
  When the collaborator fails the buffer's contents are whatever the collaborator left;
  the model keeps the buffer, since no claim depends on it.
\<close>

definition pfsReadPartitionData ::
  "pfs_env \<Rightarrow> PartitionFileSystemContext option \<Rightarrow> u8 list option \<Rightarrow> u64 \<Rightarrow> u64 \<Rightarrow> trace
     \<Rightarrow> (error + unit) \<times> u8 list option \<times> trace" where
  "pfsReadPartitionData E ctx out read_size offset tr =
     (case (ctx, out) of
        (Some c, Some buf) \<Rightarrow>
          (case nca_fs_ctx c of
             None \<Rightarrow> (Inl InvalidArgument, out, tr)
           | Some nca \<Rightarrow>
               if ctx_size c = 0 \<or> read_size = 0 \<or> offset \<ge> ctx_size c
                  \<or> offset + read_size > ctx_size c
               then (Inl InvalidArgument, out, tr)
               else
                 (case ncaReadFsSection E nca read_size (ctx_offset c + offset) of
                    None \<Rightarrow> (Inl IOError, out, tr @ [(read_size, ctx_offset c + offset)])
                  | Some bs \<Rightarrow>
                      (Inr (), Some (buf_write buf (take (unat read_size) bs)),
                       tr @ [(read_size, ctx_offset c + offset)])))
      | _ \<Rightarrow> (Inl InvalidArgument, out, tr))"

text \<open>\<open>pfsReadEntryData(ctx, fs_entry, out, read_size, offset)\<close>.\<close>

definition pfsReadEntryData ::
  "pfs_env \<Rightarrow> PartitionFileSystemContext option \<Rightarrow> PartitionFileSystemEntry option
     \<Rightarrow> u8 list option \<Rightarrow> u64 \<Rightarrow> u64 \<Rightarrow> trace \<Rightarrow> (error + unit) \<times> u8 list option \<times> trace" where
  "pfsReadEntryData E ctx fs_entry out read_size offset tr =
     (case (ctx, fs_entry, out) of
        (Some c, Some e, Some buf) \<Rightarrow>
          if entry_offset e \<ge> ctx_size c \<or> entry_size e = 0
             \<or> entry_offset e + entry_size e > ctx_size c
             \<or> read_size = 0 \<or> offset \<ge> entry_size e \<or> offset + read_size > entry_size e
          then (Inl InvalidArgument, out, tr)
          else pfsReadPartitionData E ctx out read_size (header_size c + entry_offset e + offset) tr
      | _ \<Rightarrow> (Inl InvalidArgument, out, tr))"

subsection \<open>Initialisation\<close>

text \<open>
  \<open>pfsInitializeContext(out, nca_fs_ctx)\<close>. The result is the return value, the context
  \<open>out\<close> points to afterwards, and the trace. "Fill context" assigns every field of
  the context, so the context it leaves is written as a record. The two local buffers (\<open>pfs_header\<close> and
  the \<open>calloc\<close>ed header) start zeroed; \<open>magic\<close> holds the swapped header magic when its
  address is passed to \<open>pfsReadEntryData\<close>.
\<close>

definition pfsInitializeContext ::
  "pfs_env \<Rightarrow> PartitionFileSystemContext option \<Rightarrow> NcaFsSectionContext option \<Rightarrow> trace
     \<Rightarrow> (error + unit) \<times> PartitionFileSystemContext option \<times> trace" where
  "pfsInitializeContext E out nca_ptr tr =
     (case (out, nca_ptr) of
        (Some out0, Some nca) \<Rightarrow>
          (case nca_header nca of
             None \<Rightarrow> (Inl InvalidArgument, out, tr)
           | Some hdr \<Rightarrow>
               if section_type nca \<noteq> NcaFsSectionType_PartitionFs
                  \<or> fs_type hdr \<noteq> NcaFsType_PartitionFs
                  \<or> hash_type hdr \<noteq> NcaHashType_HierarchicalSha256
               then (Inl InvalidArgument, out, tr)
               else
                 let out1 = \<lparr>nca_fs_ctx = Some nca, ctx_offset = 0, ctx_size = 0,
                             is_exefs = False, header_size = 0, ctx_header = None\<rparr>
                 in
                 if \<not> ncaValidateHierarchicalSha256Offsets E (hierarchical_sha256 hdr) (section_size nca)
                 then (Inl IntegrityError, Some out1, tr)
                 else
                   let out2 = out1\<lparr>ctx_offset := hash_target_layer_offset (hierarchical_sha256 hdr),
                                   ctx_size := hash_target_layer_size (hierarchical_sha256 hdr)\<rparr>;
                       tr1 = tr @ [(sizeof_PartitionFileSystemHeader E, ctx_offset out2)]
                   in
                   (case ncaReadFsSection E nca (sizeof_PartitionFileSystemHeader E) (ctx_offset out2) of
                      None \<Rightarrow> (Inl IOError, Some out2, tr1)
                    | Some bs1 \<Rightarrow>
                        let pfs_header = header_overlay E
                              (buf_write (replicate (unat (sizeof_PartitionFileSystemHeader E)) 0)
                                 (take (unat (sizeof_PartitionFileSystemHeader E)) bs1));
                            magic1 = bswap32 (magic pfs_header)
                        in
                        if magic1 \<noteq> PFS0_MAGIC E then (Inl InvalidFormat, Some out2, tr1)
                        else if entry_count pfs_header = 0 \<or> name_table_size pfs_header = 0
                        then (Inl InvalidFormat, Some out2, tr1)
                        else
                          let out3 = out2\<lparr>header_size :=
                                      sizeof_PartitionFileSystemHeader E
                                      + ucast (entry_count pfs_header) * sizeof_PartitionFileSystemEntry E
                                      + ucast (name_table_size pfs_header)\<rparr>
                          in
                          if \<not> calloc_ok E (header_size out3) then (Inl OutOfMemory, Some out3, tr1)
                          else
                            let out4 = out3\<lparr>ctx_header := Some (replicate (unat (header_size out3)) 0)\<rparr>;
                                tr2 = tr1 @ [(header_size out4, ctx_offset out4)]
                            in
                            (case ncaReadFsSection E nca (header_size out4) (ctx_offset out4) of
                               None \<Rightarrow> (Inl IOError, Some (pfsFreeContext E out4), tr2)
                             | Some bs2 \<Rightarrow>
                                 let out5 = out4\<lparr>ctx_header :=
                                              Some (buf_write (replicate (unat (header_size out3)) 0)
                                                      (take (unat (header_size out4)) bs2))\<rparr>
                                 in
                                 (case pfsGetEntryByName E out5 ''main.npdm'' of
                                    None \<Rightarrow> (Inr (), Some out5, tr2)
                                  | Some main_npdm_entry \<Rightarrow>
                                      (case pfsReadEntryData E (Some out5) (Some main_npdm_entry)
                                              (Some (store_u32 magic1)) 4 0 tr2 of
                                         (Inr u, Some mbuf, tr3) \<Rightarrow>
                                           if bswap32 (load_u32 mbuf) = NPDM_META_MAGIC E
                                           then (Inr (), Some (out5\<lparr>is_exefs := True\<rparr>), tr3)
                                           else (Inr (), Some out5, tr3)
                                       | (_, _, tr3) \<Rightarrow> (Inr (), Some out5, tr3))))))
      | _ \<Rightarrow> (Inl InvalidArgument, out, tr))"

subsection \<open>An instance: a 54-byte PFS0 image\<close>

text \<open>
  One instance of the parameters, for evaluating the model: a section holding a header
  with one entry, \<open>main.npdm\<close> (4 bytes at offset 0 of the data region, the bytes
  \<open>META\<close>), with the field layout of the PFS0 format (a 16-byte header, 24-byte entry
  records, names terminated by a zero byte).
\<close>

definition load_u64 :: "u8 list \<Rightarrow> u64" where
  "load_u64 bs = ucast (load_u32 bs) OR push_bit 32 (ucast (load_u32 (drop 4 bs)))"

definition pfs_image_example :: "u8 list" where
  "pfs_image_example =
     [0x50, 0x46, 0x53, 0x30,  1, 0, 0, 0,  0x0A, 0, 0, 0,  0, 0, 0, 0,
      0, 0, 0, 0, 0, 0, 0, 0,  4, 0, 0, 0, 0, 0, 0, 0,  0, 0, 0, 0,  0, 0, 0, 0,
      0x6D, 0x61, 0x69, 0x6E, 0x2E, 0x6E, 0x70, 0x64, 0x6D, 0,
      0x4D, 0x45, 0x54, 0x41]"

definition entry_example_at :: "u8 list \<Rightarrow> nat \<Rightarrow> PartitionFileSystemEntry" where
  "entry_example_at hdr i =
     \<lparr>entry_offset = load_u64 (drop (16 + i * 24) hdr),
      entry_size = load_u64 (drop (16 + i * 24 + 8) hdr),
      name_offset = load_u32 (drop (16 + i * 24 + 16) hdr)\<rparr>"

definition entry_name_example :: "u8 list \<Rightarrow> nat \<Rightarrow> PartitionFileSystemEntry \<Rightarrow> u8 list" where
  "entry_name_example hdr n e =
     takeWhile (\<lambda>b. b \<noteq> 0) (drop (16 + n * 24 + unat (name_offset e)) hdr)"

definition get_entry_example :: "PartitionFileSystemContext \<Rightarrow> string \<Rightarrow> PartitionFileSystemEntry option" where
  "get_entry_example ctx name =
     (case ctx_header ctx of
        None \<Rightarrow> None
      | Some hdr \<Rightarrow>
          let n = unat (load_u32 (drop 4 hdr)) in
          find (\<lambda>e. entry_name_example hdr n e = map (\<lambda>c. of_nat (of_char c)) name)
               (map (entry_example_at hdr) [0..<n]))"

definition pfs_env_example :: pfs_env where
  "pfs_env_example =
     \<lparr>ncaValidateHierarchicalSha256Offsets =
        (\<lambda>h sz. unat (hash_target_layer_offset h) + unat (hash_target_layer_size h) \<le> unat sz),
      ncaReadFsSection =
        (\<lambda>nca n off. if unat off + unat n \<le> length pfs_image_example
                      then Some (take (unat n) (drop (unat off) pfs_image_example)) else None),
      calloc_ok = (\<lambda>n. True),
      sizeof_PartitionFileSystemHeader = 0x10,
      sizeof_PartitionFileSystemEntry = 0x18,
      header_overlay =
        (\<lambda>bs. \<lparr>magic = load_u32 bs, entry_count = load_u32 (drop 4 bs),
                 name_table_size = load_u32 (drop 8 bs)\<rparr>),
      PFS0_MAGIC = 0x50465330,
      NPDM_META_MAGIC = 0x4D455441,
      pfsGetEntryByName = get_entry_example,
      pfsFreeContext =
        (\<lambda>c. \<lparr>nca_fs_ctx = None, ctx_offset = 0, ctx_size = 0, is_exefs = False,
                header_size = 0, ctx_header = None\<rparr>)\<rparr>"

definition nca_example :: NcaFsSectionContext where
  "nca_example =
     \<lparr>section_type = NcaFsSectionType_PartitionFs,
      nca_header = Some \<lparr>fs_type = NcaFsType_PartitionFs, hash_type = NcaHashType_HierarchicalSha256,
                         hierarchical_sha256 = \<lparr>hash_target_layer_offset = 0, hash_target_layer_size = 54\<rparr>\<rparr>,
      section_size = 54\<rparr>"

definition ctx_blank :: PartitionFileSystemContext where
  "ctx_blank = \<lparr>nca_fs_ctx = None, ctx_offset = 0, ctx_size = 0, is_exefs = False,
                 header_size = 0, ctx_header = None\<rparr>"

text \<open>The context that \<open>pfsInitializeContext\<close> builds from that image.\<close>

definition ctx_example :: PartitionFileSystemContext where
  "ctx_example =
     \<lparr>nca_fs_ctx = Some nca_example, ctx_offset = 0, ctx_size = 54, is_exefs = True,
      header_size = 50, ctx_header = Some (take 50 pfs_image_example)\<rparr>"

section \<open>cert.c: the certificate resolution engine\<close>

subsection \<open>Strings\<close>

text \<open>
  A C string is the list of its characters before the terminating zero; \<open>strlen\<close> is
  \<open>length\<close>. \<open>strcmp\<close> compares as unsigned characters and is zero exactly on equal
  strings.
\<close>

fun strcmp :: "string \<Rightarrow> string \<Rightarrow> int" where
  "strcmp [] [] = 0"
| "strcmp [] (y # ys) = - int (of_char y)"
| "strcmp (x # xs) [] = int (of_char x)"
| "strcmp (x # xs) (y # ys) = (if x = y then strcmp xs ys else int (of_char x) - int (of_char y))"

text \<open>
  \<open>snprintf(buf, n, "%s", s)\<close> leaves in \<open>buf\<close> the first \<open>n - 1\<close> characters of \<open>s\<close>.
\<close>

definition snprintf_s :: "nat \<Rightarrow> string \<Rightarrow> string" where
  "snprintf_s n s = take (n - 1) s"

text \<open>
  \<open>snprintf(buf, n, fmt)\<close> with no further argument interprets \<open>fmt\<close> as a format:
  an ordinary character is copied, \<open>%%\<close> writes one \<open>%\<close>, and any other conversion
  specification takes an argument that was not passed, which C leaves undefined
  (\<open>None\<close>). The whole format is processed, then the output is cut to \<open>n - 1\<close>
  characters.
\<close>

fun format_no_args :: "string \<Rightarrow> string option" where
  "format_no_args [] = Some []"
| "format_no_args (c # cs) =
     (if c = CHR ''%''
      then (case cs of
              [] \<Rightarrow> None
            | d # ds \<Rightarrow> if d = CHR ''%'' then map_option ((#) CHR ''%'') (format_no_args ds) else None)
      else map_option ((#) c) (format_no_args cs))"

definition snprintf_fmt :: "nat \<Rightarrow> string \<Rightarrow> string option" where
  "snprintf_fmt n fmt = map_option (take (n - 1)) (format_no_args fmt)"

text \<open>
  \<open>strtok(s, "-")\<close> on the buffer \<open>s\<close>: skip the delimiters in front; at the end of the
  buffer there is no token; otherwise the token runs to the next delimiter, and the
  tokenizer keeps the rest of the buffer behind that delimiter for the next call,
  \<open>strtok(NULL, "-")\<close>. The result is the token and the rest.
\<close>

definition strtok :: "string \<Rightarrow> (string \<times> string) option" where
  "strtok s =
     (case dropWhile (\<lambda>c. c = CHR ''-'') s of
        [] \<Rightarrow> None
      | t \<Rightarrow> Some (takeWhile (\<lambda>c. c \<noteq> CHR ''-'') t, drop 1 (dropWhile (\<lambda>c. c \<noteq> CHR ''-'') t)))"

lemma strtok_shorter:
  assumes "strtok s = Some (t, r)"
  shows "length r < length s"
proof -
  obtain x xs where dw: "dropWhile (\<lambda>c. c = CHR ''-'') s = x # xs"
    using assms by (auto simp add: strtok_def split: list.splits)
  have r: "r = drop 1 (dropWhile (\<lambda>c. c \<noteq> CHR ''-'') (x # xs))"
    using assms dw by (simp add: strtok_def)
  have "length (dropWhile (\<lambda>c. c \<noteq> CHR ''-'') (x # xs)) \<le> Suc (length xs)"
    using length_dropWhile_le [of "\<lambda>c. c \<noteq> CHR ''-''" "x # xs"] by simp
  then have "length r \<le> length xs"
    unfolding r by simp
  also have "length xs < length (dropWhile (\<lambda>c. c = CHR ''-'') s)"
    by (simp add: dw)
  also have "\<dots> \<le> length s"
    by (rule length_dropWhile_le)
  finally show ?thesis .
qed

text \<open>All the tokens that repeated calls deliver.\<close>

function tokens :: "string \<Rightarrow> string list" where
  "tokens s = (case strtok s of None \<Rightarrow> [] | Some (t, r) \<Rightarrow> t # tokens r)"
  by pat_completeness auto
termination
  by (relation "measure length") (auto simp add: strtok_shorter)

declare tokens.simps [simp del]

subsection \<open>Data\<close>

text \<open>
  The enumerators of \<open>CertType\<close> are the names the code writes, directly or through the
  token pasting of \<open>CERT_TYPE\<close>. The structures keep the fields the code uses.
\<close>

datatype CertType =
    CertType_None
  | CertType_SigRsa4096_PubKeyRsa4096 | CertType_SigRsa4096_PubKeyRsa2048 | CertType_SigRsa4096_PubKeyEcc480
  | CertType_SigRsa2048_PubKeyRsa4096 | CertType_SigRsa2048_PubKeyRsa2048 | CertType_SigRsa2048_PubKeyEcc480
  | CertType_SigEcc480_PubKeyRsa4096 | CertType_SigEcc480_PubKeyRsa2048 | CertType_SigEcc480_PubKeyEcc480
  | CertType_SigHmac160_PubKeyRsa4096 | CertType_SigHmac160_PubKeyRsa2048 | CertType_SigHmac160_PubKeyEcc480

record CertCommonBlock =
  pub_key_type :: u32

record Certificate =
  cert_type :: CertType
  cert_size :: u64
  cert_data :: "u8 list"

record CertificateChain =
  chain_count :: u32
  chain_certs :: "Certificate list option"

subsection \<open>What the engine is given\<close>

text \<open>
  \<open>cert.c\<close> uses the constants, enumerators and inline helpers of \<open>cert.h\<close> and
  \<open>signature.h\<close>, the savefile collaborator of \<open>save.h\<close> and the allocator; none is part
  of the two files. They are parameters of the model. \<open>'ctx\<close> is an open savefile
  (\<open>save_ctx_t\<close>), \<open>'fat\<close> the storage of one file in it
  (\<open>allocation_table_storage_ctx_t\<close>).
  \<^item> \<open>save_get_fat_storage_from_file_entry_by_path E ctx path\<close> is \<open>None\<close> when the path
    does not resolve, and the storage with the declared size otherwise;
  \<^item> \<open>save_allocation_table_storage_read E fat offset count\<close> is the bytes the read
    delivers; the model keeps at most \<open>count\<close> of them, and their number is the return
    value of the C function;
  \<^item> \<open>certGetCommonBlock E data\<close> is \<open>None\<close> for a \<open>NULL\<close> result;
  \<^item> \<open>calloc_Certificate_ok E n\<close> and \<open>malloc_ok E n\<close> say whether \<open>calloc(n,
    sizeof(Certificate))\<close> and \<open>malloc(n)\<close> succeed.
\<close>

record ('ctx, 'fat) cert_env =
  SIGNED_CERT_MIN_SIZE :: u64
  SIGNED_CERT_MAX_SIZE :: u64
  SAVE_FS_LIST_MAX_NAME_LENGTH :: nat
  BIS_SYSTEM_PARTITION_MOUNT_NAME :: string
  SignatureType_Rsa4096Sha1 :: u32
  SignatureType_Rsa2048Sha1 :: u32
  SignatureType_Ecc480Sha1 :: u32
  SignatureType_Rsa4096Sha256 :: u32
  SignatureType_Rsa2048Sha256 :: u32
  SignatureType_Ecc480Sha256 :: u32
  SignatureType_Hmac160Sha1 :: u32
  CertPubKeyType_Rsa4096 :: u32
  CertPubKeyType_Rsa2048 :: u32
  certGetCommonBlock :: "u8 list \<Rightarrow> CertCommonBlock option"
  certGetSignedCertificateSize :: "u8 list \<Rightarrow> u64"
  signatureGetSigType :: "u8 list \<Rightarrow> bool \<Rightarrow> u32"
  save_open_savefile :: "string \<Rightarrow> u32 \<Rightarrow> 'ctx option"
  save_get_fat_storage_from_file_entry_by_path :: "'ctx \<Rightarrow> string \<Rightarrow> ('fat \<times> u64) option"
  save_allocation_table_storage_read :: "'fat \<Rightarrow> u64 \<Rightarrow> u64 \<Rightarrow> u8 list"
  calloc_Certificate_ok :: "u32 \<Rightarrow> bool"
  malloc_ok :: "u64 \<Rightarrow> bool"

text \<open>
  The internal guard "ES certificate savefile not opened!" has no kind in the
  specification's taxonomy; the model reports it as \<open>IOError\<close>, as it does a savefile
  that cannot be opened.
\<close>

text \<open>
  Modelled from the spec: \<open>certFreeCertificateChain\<close> is an inline function of \<open>cert.h\<close>,
  which is not among the sources. The specification says the chain is released and no
  certificate is observably allocated afterwards: the array is freed and the structure
  cleared.
\<close>

definition certFreeCertificateChain :: "CertificateChain \<Rightarrow> CertificateChain" where
  "certFreeCertificateChain chain = \<lparr>chain_count = 0, chain_certs = None\<rparr>"

subsection \<open>Classification\<close>

text \<open>
  \<open>CERT_TYPE(sig)\<close>: the macro pastes \<open>sig\<close> into three enumerator names and selects one
  by \<open>pub_key_type\<close>.
\<close>

datatype sig_token = Rsa4096 | Rsa2048 | Ecc480 | Hmac160

fun CertType_Sig_PubKeyRsa4096 :: "sig_token \<Rightarrow> CertType" where
  "CertType_Sig_PubKeyRsa4096 Rsa4096 = CertType_SigRsa4096_PubKeyRsa4096"
| "CertType_Sig_PubKeyRsa4096 Rsa2048 = CertType_SigRsa2048_PubKeyRsa4096"
| "CertType_Sig_PubKeyRsa4096 Ecc480 = CertType_SigEcc480_PubKeyRsa4096"
| "CertType_Sig_PubKeyRsa4096 Hmac160 = CertType_SigHmac160_PubKeyRsa4096"

fun CertType_Sig_PubKeyRsa2048 :: "sig_token \<Rightarrow> CertType" where
  "CertType_Sig_PubKeyRsa2048 Rsa4096 = CertType_SigRsa4096_PubKeyRsa2048"
| "CertType_Sig_PubKeyRsa2048 Rsa2048 = CertType_SigRsa2048_PubKeyRsa2048"
| "CertType_Sig_PubKeyRsa2048 Ecc480 = CertType_SigEcc480_PubKeyRsa2048"
| "CertType_Sig_PubKeyRsa2048 Hmac160 = CertType_SigHmac160_PubKeyRsa2048"

fun CertType_Sig_PubKeyEcc480 :: "sig_token \<Rightarrow> CertType" where
  "CertType_Sig_PubKeyEcc480 Rsa4096 = CertType_SigRsa4096_PubKeyEcc480"
| "CertType_Sig_PubKeyEcc480 Rsa2048 = CertType_SigRsa2048_PubKeyEcc480"
| "CertType_Sig_PubKeyEcc480 Ecc480 = CertType_SigEcc480_PubKeyEcc480"
| "CertType_Sig_PubKeyEcc480 Hmac160 = CertType_SigHmac160_PubKeyEcc480"

definition CERT_TYPE :: "('ctx, 'fat) cert_env \<Rightarrow> sig_token \<Rightarrow> u32 \<Rightarrow> CertType" where
  "CERT_TYPE E sig pk =
     (if pk = CertPubKeyType_Rsa4096 E then CertType_Sig_PubKeyRsa4096 sig
      else (if pk = CertPubKeyType_Rsa2048 E then CertType_Sig_PubKeyRsa2048 sig
            else CertType_Sig_PubKeyEcc480 sig))"

text \<open>
  \<open>certGetCertificateType(data, data_size)\<close>. The \<open>switch\<close> is written as the chain of
  its labels in order; C requires the labels of a \<open>switch\<close> to differ.
\<close>

definition certGetCertificateType :: "('ctx, 'fat) cert_env \<Rightarrow> u8 list option \<Rightarrow> u64 \<Rightarrow> CertType" where
  "certGetCertificateType E data data_size =
     (case data of
        None \<Rightarrow> CertType_None
      | Some d \<Rightarrow>
          if data_size < SIGNED_CERT_MIN_SIZE E \<or> data_size > SIGNED_CERT_MAX_SIZE E
          then CertType_None
          else
            (case certGetCommonBlock E d of
               None \<Rightarrow> CertType_None
             | Some cert_common_block \<Rightarrow>
                 let signed_cert_size = certGetSignedCertificateSize E d in
                 if signed_cert_size = 0 \<or> signed_cert_size > data_size then CertType_None
                 else
                   let sig_type = signatureGetSigType E d True;
                       pk = bswap32 (pub_key_type cert_common_block)
                   in
                   if sig_type = SignatureType_Rsa4096Sha1 E \<or> sig_type = SignatureType_Rsa4096Sha256 E
                   then CERT_TYPE E Rsa4096 pk
                   else if sig_type = SignatureType_Rsa2048Sha1 E \<or> sig_type = SignatureType_Rsa2048Sha256 E
                   then CERT_TYPE E Rsa2048 pk
                   else if sig_type = SignatureType_Ecc480Sha1 E \<or> sig_type = SignatureType_Ecc480Sha256 E
                   then CERT_TYPE E Ecc480 pk
                   else if sig_type = SignatureType_Hmac160Sha1 E
                   then CERT_TYPE E Hmac160 pk
                   else CertType_None))"

subsection \<open>The savefile\<close>

text \<open>
  \<open>g_esCertSaveCtx\<close> is the global handle, \<open>None\<close> when the savefile is closed. The
  functions take it and return it. The mutex is not modelled: the model is sequential.
\<close>

definition certOpenEsCertSaveFile :: "('ctx, 'fat) cert_env \<Rightarrow> 'ctx option \<Rightarrow> bool \<times> 'ctx option" where
  "certOpenEsCertSaveFile E g =
     (case g of
        Some c \<Rightarrow> (True, g)
      | None \<Rightarrow>
          (case save_open_savefile E (BIS_SYSTEM_PARTITION_MOUNT_NAME E @ ''/save/80000000000000e0'') 0 of
             None \<Rightarrow> (False, None)
           | Some c \<Rightarrow> (True, Some c)))"

definition certCloseEsCertSaveFile :: "'ctx option \<Rightarrow> 'ctx option" where
  "certCloseEsCertSaveFile g = None"

subsection \<open>One certificate\<close>

text \<open>
  \<open>_certRetrieveCertificateByName(dst, name)\<close>; the static functions \<open>_f\<close> of the file
  are written \<open>s_f\<close>. The result is the return value and \<open>*dst\<close> afterwards.
\<close>

definition s_certRetrieveCertificateByName ::
  "('ctx, 'fat) cert_env \<Rightarrow> 'ctx option \<Rightarrow> Certificate \<Rightarrow> string \<Rightarrow> (error + unit) \<times> Certificate" where
  "s_certRetrieveCertificateByName E g dst name =
     (case g of
        None \<Rightarrow> (Inl IOError, dst)
      | Some ctx \<Rightarrow>
          let cert_path = snprintf_s (SAVE_FS_LIST_MAX_NAME_LENGTH E) (''/certificate/'' @ name) in
          (case save_get_fat_storage_from_file_entry_by_path E ctx cert_path of
             None \<Rightarrow> (Inl NotFound, dst)
           | Some (fat_storage, cert_size0) \<Rightarrow>
               if cert_size0 < SIGNED_CERT_MIN_SIZE E \<or> cert_size0 > SIGNED_CERT_MAX_SIZE E
               then (Inl InvalidFormat, dst)
               else
                 let dst1 = dst\<lparr>cert_size := cert_size0\<rparr>;
                     bs = take (unat (cert_size dst1))
                            (save_allocation_table_storage_read E fat_storage 0 (cert_size dst1));
                     br = (word_of_nat (length bs) :: u64);
                     dst2 = dst1\<lparr>cert_data := buf_write (cert_data dst1) bs\<rparr>
                 in
                 if br \<noteq> cert_size dst2 then (Inl IOError, dst2)
                 else
                   let dst3 = dst2\<lparr>cert_type :=
                                certGetCertificateType E (Some (cert_data dst2)) (cert_size dst2)\<rparr>
                   in
                   if cert_type dst3 = CertType_None then (Inl InvalidFormat, dst3)
                   else (Inr (), dst3)))"

subsection \<open>The issuer's tokens\<close>

text \<open>
  The counting loop: \<open>pch\<close> is the token just delivered (with the rest of the buffer),
  \<open>None\<close> for \<open>NULL\<close>.
\<close>

function count_loop :: "(string \<times> string) option \<Rightarrow> u32 \<Rightarrow> u32" where
  "count_loop None count = count"
| "count_loop (Some (pch, rest)) count = count_loop (strtok rest) (count + 1)"
  by pat_completeness auto
termination
  by (relation "measure (\<lambda>(p, c). case p of None \<Rightarrow> 0 | Some (t, r) \<Rightarrow> Suc (length r))")
     (auto simp add: strtok_shorter split: option.splits)

text \<open>
  \<open>certGetCertificateCountInSignatureIssuer(issuer)\<close>. The result is \<open>None\<close> where the
  arguments do not determine it: \<open>issuer + 5\<close> lies behind the terminator of a string
  shorter than five characters, and the string is then used as the format of
  \<open>snprintf\<close>.
\<close>

definition certGetCertificateCountInSignatureIssuer :: "string option \<Rightarrow> u32 option" where
  "certGetCertificateCountInSignatureIssuer issuer =
     (case issuer of
        None \<Rightarrow> Some 0
      | Some s \<Rightarrow>
          if length s = 0 then Some 0
          else if length s < 5 then None
          else
            (case snprintf_fmt 0x40 (drop 5 s) of
               None \<Rightarrow> None
             | Some issuer_copy \<Rightarrow> Some (count_loop (strtok issuer_copy) 0)))"

subsection \<open>The chain\<close>

text \<open>A slot of the \<open>calloc\<close>ed array: every byte zero, and \<open>CertType_None\<close> is 0.\<close>

definition zero_Certificate :: "('ctx, 'fat) cert_env \<Rightarrow> Certificate" where
  "zero_Certificate E =
     \<lparr>cert_type = CertType_None, cert_size = 0,
      cert_data = replicate (unat (SIGNED_CERT_MAX_SIZE E)) 0\<rparr>"

text \<open>
  The retrieval loop over the tokens, with the array and the index \<open>i\<close>. The result is
  \<open>None\<close> when the loop writes behind the array (undefined in C), and otherwise
  \<open>success\<close> with the array.
\<close>

function chain_loop ::
  "('ctx, 'fat) cert_env \<Rightarrow> 'ctx option \<Rightarrow> (string \<times> string) option \<Rightarrow> Certificate list \<Rightarrow> u32
     \<Rightarrow> ((error + unit) \<times> Certificate list) option" where
  "chain_loop E g None certs i = Some (Inr (), certs)"
| "chain_loop E g (Some (pch, rest)) certs i =
     (if length certs \<le> unat i then None
      else
        (case s_certRetrieveCertificateByName E g (certs ! unat i) pch of
           (Inl e, c) \<Rightarrow> Some (Inl e, certs[unat i := c])
         | (Inr u, c) \<Rightarrow> chain_loop E g (strtok rest) (certs[unat i := c]) (i + 1)))"
  by pat_completeness auto
termination
  by (relation "measure (\<lambda>(E, g, p, certs, i). case p of None \<Rightarrow> 0 | Some (t, r) \<Rightarrow> Suc (length r))")
     (auto simp add: strtok_shorter split: option.splits)

text \<open>
  \<open>_certRetrieveCertificateChainBySignatureIssuer(dst, issuer)\<close>. The result is the
  return value and \<open>*dst\<close> afterwards, or \<open>None\<close> where the behaviour is not determined
  (see the counting function and the loop).
\<close>

definition s_certRetrieveCertificateChainBySignatureIssuer ::
  "('ctx, 'fat) cert_env \<Rightarrow> 'ctx option \<Rightarrow> CertificateChain \<Rightarrow> string
     \<Rightarrow> ((error + unit) \<times> CertificateChain) option" where
  "s_certRetrieveCertificateChainBySignatureIssuer E g dst issuer =
     (case g of
        None \<Rightarrow> Some (Inl IOError, dst)
      | Some ctx \<Rightarrow>
          (case certGetCertificateCountInSignatureIssuer (Some issuer) of
             None \<Rightarrow> None
           | Some n \<Rightarrow>
               let dst1 = dst\<lparr>chain_count := n\<rparr> in
               if chain_count dst1 = 0 then Some (Inl InvalidArgument, dst1)
               else if \<not> calloc_Certificate_ok E (chain_count dst1)
               then Some (Inl OutOfMemory, dst1\<lparr>chain_certs := None\<rparr>)
               else
                 let certs0 = replicate (unat (chain_count dst1)) (zero_Certificate E);
                     issuer_copy = snprintf_s 0x40 (drop 5 issuer)
                 in
                 (case chain_loop E g (strtok issuer_copy) certs0 0 of
                    None \<Rightarrow> None
                  | Some (Inl e, certs) \<Rightarrow>
                      Some (Inl e, certFreeCertificateChain (dst1\<lparr>chain_certs := Some certs\<rparr>))
                  | Some (Inr u, certs) \<Rightarrow> Some (Inr (), dst1\<lparr>chain_certs := Some certs\<rparr>))))"

text \<open>
  \<open>certRetrieveCertificateChainBySignatureIssuer(dst, issuer)\<close>. The result is the
  return value, the global handle and \<open>*dst\<close> afterwards.
\<close>

definition certRetrieveCertificateChainBySignatureIssuer ::
  "('ctx, 'fat) cert_env \<Rightarrow> 'ctx option \<Rightarrow> CertificateChain option \<Rightarrow> string option
     \<Rightarrow> ((error + unit) \<times> 'ctx option \<times> CertificateChain option) option" where
  "certRetrieveCertificateChainBySignatureIssuer E g dst issuer =
     (case (dst, issuer) of
        (Some d, Some s) \<Rightarrow>
          if length s = 0 \<or> length s \<le> 5 \<or> strcmp s ''Root-'' \<noteq> 0
          then Some (Inl InvalidArgument, g, dst)
          else
            (case certOpenEsCertSaveFile E g of
               (False, g1) \<Rightarrow> Some (Inl IOError, g1, dst)
             | (True, g1) \<Rightarrow>
                 (case s_certRetrieveCertificateChainBySignatureIssuer E g1 d s of
                    None \<Rightarrow> None
                  | Some (ret, d') \<Rightarrow> Some (ret, certCloseEsCertSaveFile g1, Some d')))
      | _ \<Rightarrow> Some (Inl InvalidArgument, g, dst))"

subsection \<open>The raw chain\<close>

text \<open>
  \<open>certCalculateRawCertificateChainSize(chain)\<close>. The array of a chain holds at least
  \<open>count\<close> certificates.
\<close>

definition certCalculateRawCertificateChainSize :: "CertificateChain option \<Rightarrow> u64" where
  "certCalculateRawCertificateChainSize chain =
     (case chain of
        None \<Rightarrow> 0
      | Some c \<Rightarrow>
          (case chain_certs c of
             None \<Rightarrow> 0
           | Some certs \<Rightarrow>
               if chain_count c = 0 then 0
               else fold (\<lambda>i chain_size. chain_size + cert_size (certs ! i)) [0..<unat (chain_count c)] 0))"

text \<open>\<open>memcpy(dst + pos, src, n)\<close> on a buffer that holds \<open>pos + n\<close> bytes.\<close>

definition memcpy_at :: "u8 list \<Rightarrow> nat \<Rightarrow> u8 list \<Rightarrow> nat \<Rightarrow> u8 list" where
  "memcpy_at dst pos src n = take pos dst @ take n src @ drop (pos + n) dst"

text \<open>
  \<open>certCopyCertificateChainDataToMemoryBuffer(dst, chain)\<close>: the loop carries the buffer
  and the position of \<open>dst_u8\<close> in it.
\<close>

definition certCopyCertificateChainDataToMemoryBuffer :: "u8 list \<Rightarrow> CertificateChain option \<Rightarrow> u8 list" where
  "certCopyCertificateChainDataToMemoryBuffer dst chain =
     (case chain of
        None \<Rightarrow> dst
      | Some c \<Rightarrow>
          (case chain_certs c of
             None \<Rightarrow> dst
           | Some certs \<Rightarrow>
               if chain_count c = 0 then dst
               else
                 fst (fold (\<lambda>i (buf, dst_u8).
                              (memcpy_at buf dst_u8 (cert_data (certs ! i)) (unat (cert_size (certs ! i))),
                               dst_u8 + unat (cert_size (certs ! i))))
                           [0..<unat (chain_count c)] (dst, 0))))"


subsection \<open>An instance: a store with two certificates\<close>

text \<open>
  One instance of the parameters, for evaluating the model, with small certificates:
  a signed certificate is a signature block (its type in the first four bytes,
  big-endian), a common block of \<open>0x10\<close> bytes with the public key type at offset 4, and
  a public key block. The store holds \<open>CA00000003\<close> (RSA-4096 signature, RSA-2048 key,
  \<open>0x48\<close> bytes) and \<open>XS00000020\<close> (RSA-2048 signature, RSA-2048 key, \<open>0x38\<close> bytes).
\<close>

definition sig_block_size_example :: "u32 \<Rightarrow> nat" where
  "sig_block_size_example t =
     (if t = 0x10000 \<or> t = 0x10003 then 0x24
      else if t = 0x10001 \<or> t = 0x10004 then 0x14
      else if t = 0x10002 \<or> t = 0x10005 then 0x08
      else if t = 0x10006 then 0x04 else 0)"

definition pub_key_block_size_example :: "u32 \<Rightarrow> nat" where
  "pub_key_block_size_example k =
     (if k = 0 then 0x24 else if k = 1 then 0x14 else if k = 2 then 0x08 else 0)"

definition cert_bytes_example :: "u32 \<Rightarrow> u32 \<Rightarrow> u8 list" where
  "cert_bytes_example t k =
     rev (store_u32 t) @ replicate (sig_block_size_example t - 4) 0 @ replicate 4 0
     @ rev (store_u32 k) @ replicate (8 + pub_key_block_size_example k) 0"

definition store_example :: "(string \<times> u8 list) list" where
  "store_example =
     [(''/certificate/CA00000003'', cert_bytes_example 0x10003 1),
      (''/certificate/XS00000020'', cert_bytes_example 0x10004 1)]"

definition cert_env_example :: "(unit, u8 list) cert_env" where
  "cert_env_example =
     \<lparr>SIGNED_CERT_MIN_SIZE = 0x1C,
      SIGNED_CERT_MAX_SIZE = 0x58,
      SAVE_FS_LIST_MAX_NAME_LENGTH = 0x40,
      BIS_SYSTEM_PARTITION_MOUNT_NAME = ''sys:'',
      SignatureType_Rsa4096Sha1 = 0x10000,
      SignatureType_Rsa2048Sha1 = 0x10001,
      SignatureType_Ecc480Sha1 = 0x10002,
      SignatureType_Rsa4096Sha256 = 0x10003,
      SignatureType_Rsa2048Sha256 = 0x10004,
      SignatureType_Ecc480Sha256 = 0x10005,
      SignatureType_Hmac160Sha1 = 0x10006,
      CertPubKeyType_Rsa4096 = 0,
      CertPubKeyType_Rsa2048 = 1,
      certGetCommonBlock =
        (\<lambda>d. if sig_block_size_example (be32 d) = 0 then None
             else Some \<lparr>pub_key_type = load_u32 (drop (sig_block_size_example (be32 d) + 4) d)\<rparr>),
      certGetSignedCertificateSize =
        (\<lambda>d. let n = sig_block_size_example (be32 d);
                 m = pub_key_block_size_example (be32 (drop (n + 4) d))
             in if n = 0 \<or> m = 0 then 0 else of_nat (n + 0x10 + m)),
      signatureGetSigType = (\<lambda>d big_endian. if big_endian then be32 d else load_u32 d),
      save_open_savefile = (\<lambda>path flags. Some ()),
      save_get_fat_storage_from_file_entry_by_path =
        (\<lambda>ctx path. map_option (\<lambda>bs. (bs, of_nat (length bs))) (map_of store_example path)),
      save_allocation_table_storage_read = (\<lambda>fat offset n. take (unat n) (drop (unat offset) fat)),
      calloc_Certificate_ok = (\<lambda>n. True),
      malloc_ok = (\<lambda>n. True)\<rparr>"

text \<open>The same instance with a store that resolves every path to the first certificate.\<close>

definition cert_env_any :: "(unit, u8 list) cert_env" where
  "cert_env_any =
     cert_env_example\<lparr>save_get_fat_storage_from_file_entry_by_path :=
       (\<lambda>ctx path. Some (cert_bytes_example 0x10003 1, 0x48))\<rparr>"

text \<open>
  An issuer of 69 characters whose part behind \<open>Root-\<close> has 64 characters and starts
  with \<open>%%\<close>.
\<close>

definition issuer_percent_example :: string where
  "issuer_percent_example = ''Root-%%'' @ replicate 60 CHR ''A'' @ ''-B''"

subsection \<open>Notions for stating the properties\<close>

text \<open>The tokens that a loop started with \<open>pch\<close> runs over.\<close>

definition toks_of :: "(string \<times> string) option \<Rightarrow> string list" where
  "toks_of p = (case p of None \<Rightarrow> [] | Some (t, r) \<Rightarrow> t # tokens r)"

text \<open>A buffer cut into consecutive segments of the given lengths.\<close>

fun split_by :: "nat list \<Rightarrow> 'a list \<Rightarrow> 'a list list" where
  "split_by [] buf = []"
| "split_by (n # ns) buf = take n buf # split_by ns (drop n buf)"

text \<open>The bytes of a certificate: the first \<open>size\<close> bytes of its data array.\<close>

definition cert_bytes :: "Certificate \<Rightarrow> u8 list" where
  "cert_bytes c = take (unat (cert_size c)) (cert_data c)"

text \<open>
  A certificate as the engine keeps it: a data array of \<open>SIGNED_CERT_MAX_SIZE\<close> bytes and
  a size within it.
\<close>

definition cert_ok :: "('ctx, 'fat) cert_env \<Rightarrow> Certificate \<Rightarrow> bool" where
  "cert_ok E c \<longleftrightarrow>
     length (cert_data c) = unat (SIGNED_CERT_MAX_SIZE E) \<and> cert_size c \<le> SIGNED_CERT_MAX_SIZE E"

text \<open>The chain of the example store for the issuer \<open>Root-CA00000003-XS00000020\<close>.\<close>

definition chain_example :: CertificateChain where
  "chain_example =
     \<lparr>chain_count = 2,
      chain_certs = Some
        [\<lparr>cert_type = CertType_SigRsa4096_PubKeyRsa2048, cert_size = 0x48,
          cert_data = cert_bytes_example 0x10003 1 @ replicate 0x10 0\<rparr>,
         \<lparr>cert_type = CertType_SigRsa2048_PubKeyRsa2048, cert_size = 0x38,
          cert_data = cert_bytes_example 0x10004 1 @ replicate 0x20 0\<rparr>]\<rparr>"

section \<open>Properties of the partition filesystem parser\<close>

lemma mask_0xFF: "(0xFF :: u32) = mask 8"
  by (simp add: mask_eq_exp_minus_1)

lemma mask_0xFF00: "(0xFF00 :: u32) = push_bit 8 (mask 8)"
  by (simp add: mask_eq_exp_minus_1 push_bit_eq_mult)

lemma u8_high_bit: "8 \<le> k \<Longrightarrow> \<not> bit (b :: u8) k"
  by (auto dest: bit_imp_le_length)

lemma bswap32_u32_of_bytes: "bswap32 (u32_of_bytes b0 b1 b2 b3) = u32_of_bytes b3 b2 b1 b0"
proof (rule bit_word_eqI)
  fix n :: nat
  assume "n < LENGTH(32)"
  then consider "n < 8" | "8 \<le> n" "n < 16" | "16 \<le> n" "n < 24" | "24 \<le> n" "n < 32"
    by fastforce
  then show "bit (bswap32 (u32_of_bytes b0 b1 b2 b3)) n = bit (u32_of_bytes b3 b2 b1 b0) n"
    unfolding bswap32_def u32_of_bytes_def mask_0xFF mask_0xFF00
    by cases (auto simp add: bit_simps u8_high_bit)
qed

lemma bswap32_load_u32: "bswap32 (load_u32 bs) = be32 bs"
proof (cases bs rule: load_u32.cases)
  case (1 b0 b1 b2 b3 rest)
  then show ?thesis by (simp add: bswap32_u32_of_bytes)
qed (simp_all add: bswap32_def)

subsection \<open>Bounds checks\<close>

lemma pfsReadPartitionData_reject:
  "offset \<ge> ctx_size c \<or> offset + read_size > ctx_size c \<Longrightarrow>
   pfsReadPartitionData E (Some c) out read_size offset tr = (Inl InvalidArgument, out, tr)"
  by (auto simp add: pfsReadPartitionData_def split: option.splits)

lemma pfsReadEntryData_reject:
  "entry_offset e + entry_size e > ctx_size c \<or> offset + read_size > entry_size e
   \<or> offset \<ge> entry_size e \<Longrightarrow>
   pfsReadEntryData E (Some c) (Some e) out read_size offset tr = (Inl InvalidArgument, out, tr)"
  by (auto simp add: pfsReadEntryData_def split: option.splits)

lemma word_sum_succ:
  fixes a b s :: u64
  assumes "unat a + unat b = unat s + 1" "unat s + 1 < 2 ^ 64"
  shows "a + b > s"
proof -
  have "unat (a + b) = unat s + 1"
    using assms by (simp add: unat_word_ariths)
  then show ?thesis by (simp add: word_less_nat_alt)
qed

text \<open>
  What the guards do reject. \<open>pfsReadPartitionData\<close> returns \<open>InvalidArgument\<close>, leaves
  the output buffer as it was and issues no collaborator read (the trace is unchanged)
  whenever \<open>offset \<ge> ctx->size\<close> or the 64-bit sum \<open>offset + read_size\<close> is above
  \<open>ctx->size\<close>; \<open>pfsReadEntryData\<close> does the same whenever the 64-bit sum
  \<open>fs_entry->offset + fs_entry->size\<close> is above \<open>ctx->size\<close> or the 64-bit sum
  \<open>offset + read_size\<close> is above \<open>fs_entry->size\<close>. The boundary cases are rejected:
  \<open>offset\<close> equal to the size, and a window that ends one byte past the bound.
\<close>

theorem pfs_reads_reject_out_of_bounds:
  "(offset \<ge> ctx_size c \<or> offset + read_size > ctx_size c \<longrightarrow>
      pfsReadPartitionData E (Some c) out read_size offset tr = (Inl InvalidArgument, out, tr))
   \<and> (entry_offset e + entry_size e > ctx_size c \<or> offset + read_size > entry_size e \<longrightarrow>
      pfsReadEntryData E (Some c) (Some e) out read_size offset tr = (Inl InvalidArgument, out, tr))
   \<and> (offset = ctx_size c \<longrightarrow>
      pfsReadPartitionData E (Some c) out read_size offset tr = (Inl InvalidArgument, out, tr))
   \<and> (unat offset + unat read_size = unat (ctx_size c) + 1 \<and> unat (ctx_size c) + 1 < 2 ^ 64 \<longrightarrow>
      pfsReadPartitionData E (Some c) out read_size offset tr = (Inl InvalidArgument, out, tr))
   \<and> (offset = entry_size e \<longrightarrow>
      pfsReadEntryData E (Some c) (Some e) out read_size offset tr = (Inl InvalidArgument, out, tr))
   \<and> (unat offset + unat read_size = unat (entry_size e) + 1 \<and> unat (entry_size e) + 1 < 2 ^ 64 \<longrightarrow>
      pfsReadEntryData E (Some c) (Some e) out read_size offset tr = (Inl InvalidArgument, out, tr))"
proof (intro conjI impI)
  assume "offset \<ge> ctx_size c \<or> offset + read_size > ctx_size c"
  then show "pfsReadPartitionData E (Some c) out read_size offset tr = (Inl InvalidArgument, out, tr)"
    by (rule pfsReadPartitionData_reject)
next
  assume "entry_offset e + entry_size e > ctx_size c \<or> offset + read_size > entry_size e"
  then show "pfsReadEntryData E (Some c) (Some e) out read_size offset tr = (Inl InvalidArgument, out, tr)"
    by (auto intro: pfsReadEntryData_reject)
next
  assume "offset = ctx_size c"
  then show "pfsReadPartitionData E (Some c) out read_size offset tr = (Inl InvalidArgument, out, tr)"
    by (simp add: pfsReadPartitionData_reject)
next
  assume "unat offset + unat read_size = unat (ctx_size c) + 1 \<and> unat (ctx_size c) + 1 < 2 ^ 64"
  then have "offset + read_size > ctx_size c"
    by (simp add: word_sum_succ)
  then show "pfsReadPartitionData E (Some c) out read_size offset tr = (Inl InvalidArgument, out, tr)"
    by (simp add: pfsReadPartitionData_reject)
next
  assume "offset = entry_size e"
  then show "pfsReadEntryData E (Some c) (Some e) out read_size offset tr = (Inl InvalidArgument, out, tr)"
    by (simp add: pfsReadEntryData_reject)
next
  assume "unat offset + unat read_size = unat (entry_size e) + 1 \<and> unat (entry_size e) + 1 < 2 ^ 64"
  then have "offset + read_size > entry_size e"
    by (simp add: word_sum_succ)
  then show "pfsReadEntryData E (Some c) (Some e) out read_size offset tr = (Inl InvalidArgument, out, tr)"
    by (simp add: pfsReadEntryData_reject)
qed

text \<open>
  At the region of 54 bytes and an entry of 54 bytes at offset 1, a one-byte window at
  offset 54 meets every hypothesis at once: it starts at the size, and it ends one byte
  past it.
\<close>

theorem pfs_reads_reject_out_of_bounds_witness:
  "(54 :: u64) = ctx_size ctx_example
   \<and> unat (54 :: u64) + unat (1 :: u64) = unat (ctx_size ctx_example) + 1
   \<and> entry_offset \<lparr>entry_offset = 1, entry_size = 54, name_offset = 0\<rparr>
       + entry_size \<lparr>entry_offset = 1, entry_size = 54, name_offset = 0\<rparr> > ctx_size ctx_example
   \<and> pfsReadPartitionData pfs_env_example (Some ctx_example) (Some [7]) 1 54 []
       = (Inl InvalidArgument, Some [7], [])
   \<and> pfsReadEntryData pfs_env_example (Some ctx_example)
         (Some \<lparr>entry_offset = 1, entry_size = 54, name_offset = 0\<rparr>) (Some [7]) 1 54 []
       = (Inl InvalidArgument, Some [7], [])"
  using pfs_reads_reject_out_of_bounds
    [where offset = 54 and c = ctx_example and read_size = 1 and E = pfs_env_example
       and out = "Some [7]" and tr = "[]"
       and e = "\<lparr>entry_offset = 1, entry_size = 54, name_offset = 0\<rparr>"]
  by (simp add: ctx_example_def)

text \<open>
  C4. The claim is that both functions fail with \<open>InvalidArgument\<close>, without a
  collaborator read, whenever the window passes the region or the entry, or the entry
  passes the region. The guards compare 64-bit sums, and a sum that reaches \<open>2^64\<close>
  wraps around to a small number that passes them. In the example context (a region of
  54 bytes):
  \<^item> \<open>pfsReadPartitionData\<close> with \<open>offset = 1\<close> and \<open>read_size = 2^64 - 1\<close>, a window that
    ends at \<open>2^64\<close>: the sum is 0, the guard passes, and the read of \<open>2^64 - 1\<close> bytes is
    handed to \<open>ncaReadFsSection\<close> (which fails here: the result is \<open>IOError\<close>, not
    \<open>InvalidArgument\<close>, and the trace has the read);
  \<^item> \<open>pfsReadEntryData\<close> with an entry at offset 1 whose size field is \<open>2^64 - 1\<close>, an
    entry that ends far behind the region: the sum is 0, the entry passes, and a read
    in it succeeds.
\<close>

theorem pfs_reads_wrapped_sums_pass:
  "unat (1 :: u64) + unat (0xFFFFFFFFFFFFFFFF :: u64) > unat (ctx_size ctx_example)
   \<and> pfsReadPartitionData pfs_env_example (Some ctx_example) (Some [7]) 0xFFFFFFFFFFFFFFFF 1 []
       = (Inl IOError, Some [7], [(0xFFFFFFFFFFFFFFFF, 1)])
   \<and> unat (entry_offset \<lparr>entry_offset = 1, entry_size = 0xFFFFFFFFFFFFFFFF, name_offset = 0\<rparr>)
       + unat (entry_size \<lparr>entry_offset = 1, entry_size = 0xFFFFFFFFFFFFFFFF, name_offset = 0\<rparr>)
       > unat (ctx_size ctx_example)
   \<and> pfsReadEntryData pfs_env_example (Some ctx_example)
         (Some \<lparr>entry_offset = 1, entry_size = 0xFFFFFFFFFFFFFFFF, name_offset = 0\<rparr>) (Some [7]) 1 0 []
       = (Inr (), Some [0x45], [(1, 51)])"
proof (intro conjI)
  show "unat (1 :: u64) + unat (0xFFFFFFFFFFFFFFFF :: u64) > unat (ctx_size ctx_example)"
    by (simp add: ctx_example_def)
  show "pfsReadPartitionData pfs_env_example (Some ctx_example) (Some [7]) 0xFFFFFFFFFFFFFFFF 1 []
       = (Inl IOError, Some [7], [(0xFFFFFFFFFFFFFFFF, 1)])"
    by (simp add: pfsReadPartitionData_def ctx_example_def pfs_env_example_def pfs_image_example_def
          word_le_nat_alt word_less_nat_alt)
  show "unat (entry_offset \<lparr>entry_offset = 1, entry_size = 0xFFFFFFFFFFFFFFFF, name_offset = 0\<rparr>)
       + unat (entry_size \<lparr>entry_offset = 1, entry_size = 0xFFFFFFFFFFFFFFFF, name_offset = 0\<rparr>)
       > unat (ctx_size ctx_example)"
    by (simp add: ctx_example_def)
  show "pfsReadEntryData pfs_env_example (Some ctx_example)
         (Some \<lparr>entry_offset = 1, entry_size = 0xFFFFFFFFFFFFFFFF, name_offset = 0\<rparr>) (Some [7]) 1 0 []
       = (Inr (), Some [0x45], [(1, 51)])"
    by code_simp
qed

subsection \<open>The shifted window\<close>



subsection \<open>The ExeFS flag\<close>

lemma pfsInitializeContext_exefs_iff:
  assumes "pfsInitializeContext E out nca tr = (Inr (), Some ctx', tr')"
  shows "is_exefs ctx' \<longleftrightarrow>
     (\<exists>e mbuf tr3. pfsGetEntryByName E (ctx'\<lparr>is_exefs := False\<rparr>) ''main.npdm'' = Some e
        \<and> pfsReadEntryData E (Some (ctx'\<lparr>is_exefs := False\<rparr>)) (Some e)
              (Some (store_u32 (PFS0_MAGIC E))) 4 0
              (tr @ [(sizeof_PartitionFileSystemHeader E, ctx_offset ctx'),
                     (header_size ctx', ctx_offset ctx')]) = (Inr (), Some mbuf, tr3)
        \<and> be32 mbuf = NPDM_META_MAGIC E)"
  using assms
  unfolding pfsInitializeContext_def Let_def
  by (auto split: option.splits if_splits prod.splits sum.splits
       simp add: bswap32_load_u32)

lemma pfsInitializeContext_status:
  "isl (fst (pfsInitializeContext (E\<lparr>pfsGetEntryByName := g, NPDM_META_MAGIC := m\<rparr>) out nca tr))
   = isl (fst (pfsInitializeContext E out nca tr))"
  unfolding pfsInitializeContext_def Let_def
  by (auto split: option.splits if_splits prod.splits sum.splits)

lemma pfsInitializeContext_example:
  "pfsInitializeContext pfs_env_example (Some ctx_blank) (Some nca_example) [] =
     (Inr (), Some ctx_example, [(16, 0), (50, 0), (4, 50)])"
  by code_simp

text \<open>
  C6. After a successful \<open>pfsInitializeContext\<close>, \<open>is_exefs\<close> is true exactly when
  \<open>pfsGetEntryByName\<close> finds an entry named \<open>main.npdm\<close> in the context just built, the
  read of its first four bytes (\<open>pfsReadEntryData\<close>, 4 bytes at offset 0, issued after the
  two header reads) succeeds, and those bytes read big-endian are \<open>NPDM_META_MAGIC\<close>. In
  particular the flag is false when there is no such entry and when the entry has fewer
  than four bytes. Whether initialisation succeeds does not depend on the lookup or on
  the magic: with any other lookup function and any other magic value it succeeds or
  fails as before.
\<close>

theorem pfsInitializeContext_is_exefs:
  "(pfsInitializeContext E out nca tr = (Inr (), Some ctx', tr') \<longrightarrow>
      (is_exefs ctx' \<longleftrightarrow>
         (\<exists>e mbuf tr3. pfsGetEntryByName E (ctx'\<lparr>is_exefs := False\<rparr>) ''main.npdm'' = Some e
            \<and> pfsReadEntryData E (Some (ctx'\<lparr>is_exefs := False\<rparr>)) (Some e)
                  (Some (store_u32 (PFS0_MAGIC E))) 4 0
                  (tr @ [(sizeof_PartitionFileSystemHeader E, ctx_offset ctx'),
                         (header_size ctx', ctx_offset ctx')]) = (Inr (), Some mbuf, tr3)
            \<and> be32 mbuf = NPDM_META_MAGIC E))
      \<and> (pfsGetEntryByName E (ctx'\<lparr>is_exefs := False\<rparr>) ''main.npdm'' = None \<longrightarrow> \<not> is_exefs ctx')
      \<and> (\<forall>e. pfsGetEntryByName E (ctx'\<lparr>is_exefs := False\<rparr>) ''main.npdm'' = Some e
              \<and> entry_size e < 4 \<longrightarrow> \<not> is_exefs ctx'))
   \<and> isl (fst (pfsInitializeContext (E\<lparr>pfsGetEntryByName := g, NPDM_META_MAGIC := m\<rparr>) out nca tr))
       = isl (fst (pfsInitializeContext E out nca tr))"
proof (intro conjI impI allI)
  assume ok: "pfsInitializeContext E out nca tr = (Inr (), Some ctx', tr')"
  show iff: "is_exefs ctx' \<longleftrightarrow>
         (\<exists>e mbuf tr3. pfsGetEntryByName E (ctx'\<lparr>is_exefs := False\<rparr>) ''main.npdm'' = Some e
            \<and> pfsReadEntryData E (Some (ctx'\<lparr>is_exefs := False\<rparr>)) (Some e)
                  (Some (store_u32 (PFS0_MAGIC E))) 4 0
                  (tr @ [(sizeof_PartitionFileSystemHeader E, ctx_offset ctx'),
                         (header_size ctx', ctx_offset ctx')]) = (Inr (), Some mbuf, tr3)
            \<and> be32 mbuf = NPDM_META_MAGIC E)"
    by (rule pfsInitializeContext_exefs_iff [OF ok])
  {
    assume "pfsGetEntryByName E (ctx'\<lparr>is_exefs := False\<rparr>) ''main.npdm'' = None"
    with iff show "\<not> is_exefs ctx'" by simp
  }
  {
    fix e
    assume e: "pfsGetEntryByName E (ctx'\<lparr>is_exefs := False\<rparr>) ''main.npdm'' = Some e \<and> entry_size e < 4"
    then have "pfsReadEntryData E (Some (ctx'\<lparr>is_exefs := False\<rparr>)) (Some e)
                  (Some (store_u32 (PFS0_MAGIC E))) 4 0
                  (tr @ [(sizeof_PartitionFileSystemHeader E, ctx_offset ctx'),
                         (header_size ctx', ctx_offset ctx')])
               = (Inl InvalidArgument, Some (store_u32 (PFS0_MAGIC E)),
                  tr @ [(sizeof_PartitionFileSystemHeader E, ctx_offset ctx'),
                         (header_size ctx', ctx_offset ctx')])"
      by (simp add: pfsReadEntryData_reject)
    with iff e show "\<not> is_exefs ctx'" by auto
  }
next
  show "isl (fst (pfsInitializeContext (E\<lparr>pfsGetEntryByName := g, NPDM_META_MAGIC := m\<rparr>) out nca tr))
       = isl (fst (pfsInitializeContext E out nca tr))"
    by (rule pfsInitializeContext_status)
qed

text \<open>
  On the example image initialisation succeeds and sets the flag: \<open>main.npdm\<close> is found
  and starts with \<open>META\<close>. With a lookup that finds nothing initialisation still
  succeeds.
\<close>

theorem pfsInitializeContext_is_exefs_witness:
  "pfsInitializeContext pfs_env_example (Some ctx_blank) (Some nca_example) []
     = (Inr (), Some ctx_example, [(16, 0), (50, 0), (4, 50)])
   \<and> is_exefs ctx_example
   \<and> (\<exists>e mbuf tr3. pfsGetEntryByName pfs_env_example (ctx_example\<lparr>is_exefs := False\<rparr>) ''main.npdm'' = Some e
        \<and> pfsReadEntryData pfs_env_example (Some (ctx_example\<lparr>is_exefs := False\<rparr>)) (Some e)
              (Some (store_u32 (PFS0_MAGIC pfs_env_example))) 4 0
              ([] @ [(sizeof_PartitionFileSystemHeader pfs_env_example, ctx_offset ctx_example),
                     (header_size ctx_example, ctx_offset ctx_example)]) = (Inr (), Some mbuf, tr3)
        \<and> be32 mbuf = NPDM_META_MAGIC pfs_env_example)
   \<and> \<not> isl (fst (pfsInitializeContext
                 (pfs_env_example\<lparr>pfsGetEntryByName := (\<lambda>c n. None), NPDM_META_MAGIC := 0\<rparr>)
                 (Some ctx_blank) (Some nca_example) []))"
proof -
  have flag: "is_exefs ctx_example"
    by (simp add: ctx_example_def)
  from pfsInitializeContext_is_exefs
         [where E = pfs_env_example and out = "Some ctx_blank" and nca = "Some nca_example"
            and tr = "[]" and ctx' = ctx_example and tr' = "[(16, 0), (50, 0), (4, 50)]"
            and g = "\<lambda>c n. None" and m = 0]
       pfsInitializeContext_example flag
  show ?thesis by simp
qed

section \<open>Properties of the certificate engine\<close>

subsection \<open>Classification\<close>

text \<open>
  C7. \<open>certGetCertificateType\<close> returns \<open>CertType_None\<close> for every buffer whose size is
  below \<open>SIGNED_CERT_MIN_SIZE\<close> or above \<open>SIGNED_CERT_MAX_SIZE\<close>, for every buffer whose
  common block \<open>certGetCommonBlock\<close> does not find, and for every buffer whose signed
  certificate size (\<open>certGetSignedCertificateSize\<close>) exceeds the buffer size.
\<close>

theorem certGetCertificateType_none:
  "(data_size < SIGNED_CERT_MIN_SIZE E \<or> data_size > SIGNED_CERT_MAX_SIZE E \<longrightarrow>
      certGetCertificateType E data data_size = CertType_None)
   \<and> (certGetCommonBlock E d = None \<longrightarrow> certGetCertificateType E (Some d) data_size = CertType_None)
   \<and> (certGetSignedCertificateSize E d > data_size \<longrightarrow>
      certGetCertificateType E (Some d) data_size = CertType_None)"
  by (auto simp add: certGetCertificateType_def Let_def split: option.splits)

lemma certGetCommonBlock_example_zeros:
  "certGetCommonBlock cert_env_example (replicate 0x1C 0) = None"
  by code_simp
lemma certGetSignedCertificateSize_example_CA:
  "certGetSignedCertificateSize cert_env_example (cert_bytes_example 0x10003 1) = 0x48"
  by code_simp

text \<open>
  In the example instance: a buffer of \<open>0x1B\<close> bytes, one of \<open>0x59\<close> bytes, a zeroed
  buffer (no signature type, hence no common block), and the \<open>0x48\<close>-byte certificate
  \<open>CA00000003\<close> presented as \<open>0x38\<close> bytes.
\<close>

theorem certGetCertificateType_none_witness:
  "(0x1B :: u64) < SIGNED_CERT_MIN_SIZE cert_env_example
   \<and> certGetCertificateType cert_env_example (Some (replicate 0x1B 0)) 0x1B = CertType_None
   \<and> (0x59 :: u64) > SIGNED_CERT_MAX_SIZE cert_env_example
   \<and> certGetCertificateType cert_env_example (Some (replicate 0x59 0)) 0x59 = CertType_None
   \<and> certGetCommonBlock cert_env_example (replicate 0x1C 0) = None
   \<and> certGetCertificateType cert_env_example (Some (replicate 0x1C 0)) 0x1C = CertType_None
   \<and> certGetSignedCertificateSize cert_env_example (cert_bytes_example 0x10003 1) > 0x38
   \<and> certGetCertificateType cert_env_example (Some (cert_bytes_example 0x10003 1)) 0x38 = CertType_None"
proof -
  have lim: "SIGNED_CERT_MIN_SIZE cert_env_example = 0x1C" "SIGNED_CERT_MAX_SIZE cert_env_example = 0x58"
    by (simp_all add: cert_env_example_def)
  note a = certGetCertificateType_none
    [where E = cert_env_example and data_size = "0x1B" and data = "Some (replicate 0x1B 0)", THEN conjunct1]
  note b = certGetCertificateType_none
    [where E = cert_env_example and data_size = "0x59" and data = "Some (replicate 0x59 0)", THEN conjunct1]
  note c = certGetCertificateType_none
    [where E = cert_env_example and data_size = "0x1C" and d = "replicate 0x1C 0",
     THEN conjunct2, THEN conjunct1]
  note d = certGetCertificateType_none
    [where E = cert_env_example and data_size = "0x38" and d = "cert_bytes_example 0x10003 1",
     THEN conjunct2, THEN conjunct2]
  from a b c d certGetCommonBlock_example_zeros certGetSignedCertificateSize_example_CA show ?thesis
    by (simp add: lim)
qed


text \<open>
  C2 does not hold as stated: \<open>CERT_TYPE(Hmac160)\<close> consults \<open>pub_key_type\<close> like the
  other three families. Two buffers of \<open>0x38\<close> bytes in the example instance that differ
  in the public key type field only (RSA-4096 in the first, RSA-2048 in the second),
  both with the HMAC-160 signature type and a common block, get different tags.
\<close>

theorem certGetCertificateType_hmac160_counterexample:
  "length (cert_bytes_example 0x10006 0) = 0x38
   \<and> cert_bytes_example 0x10006 1 @ replicate 0x10 0 = (cert_bytes_example 0x10006 0)[11 := 1]
   \<and> SIGNED_CERT_MIN_SIZE cert_env_example \<le> 0x38 \<and> 0x38 \<le> SIGNED_CERT_MAX_SIZE cert_env_example
   \<and> certGetCommonBlock cert_env_example (cert_bytes_example 0x10006 0) \<noteq> None
   \<and> certGetCommonBlock cert_env_example (cert_bytes_example 0x10006 1 @ replicate 0x10 0) \<noteq> None
   \<and> signatureGetSigType cert_env_example (cert_bytes_example 0x10006 0) True
       = SignatureType_Hmac160Sha1 cert_env_example
   \<and> signatureGetSigType cert_env_example (cert_bytes_example 0x10006 1 @ replicate 0x10 0) True
       = SignatureType_Hmac160Sha1 cert_env_example
   \<and> certGetCertificateType cert_env_example (Some (cert_bytes_example 0x10006 0)) 0x38
       = CertType_SigHmac160_PubKeyRsa4096
   \<and> certGetCertificateType cert_env_example (Some (cert_bytes_example 0x10006 1 @ replicate 0x10 0)) 0x38
       = CertType_SigHmac160_PubKeyRsa2048"
  by code_simp

text \<open>
  C2, amended. For every buffer within \<open>[SIGNED_CERT_MIN_SIZE, SIGNED_CERT_MAX_SIZE]\<close>
  whose common block is found, whose signed certificate size is not zero and fits the
  buffer, and whose signature type is \<open>SignatureType_Hmac160Sha1\<close> (a \<open>switch\<close> label
  different from the other six), \<open>certGetCertificateType\<close> returns one of three HMAC-160
  tags, chosen by the byte-swapped \<open>pub_key_type\<close> of the common block:
  \<open>CertType_SigHmac160_PubKeyRsa4096\<close> for \<open>CertPubKeyType_Rsa4096\<close>,
  \<open>CertType_SigHmac160_PubKeyRsa2048\<close> for \<open>CertPubKeyType_Rsa2048\<close>, and
  \<open>CertType_SigHmac160_PubKeyEcc480\<close> for every other value.
\<close>

theorem certGetCertificateType_hmac160:
  assumes size: "SIGNED_CERT_MIN_SIZE E \<le> data_size" "data_size \<le> SIGNED_CERT_MAX_SIZE E"
    and block: "certGetCommonBlock E d = Some cb"
    and signed: "certGetSignedCertificateSize E d \<noteq> 0" "certGetSignedCertificateSize E d \<le> data_size"
    and hmac: "signatureGetSigType E d True = SignatureType_Hmac160Sha1 E"
    and labels: "SignatureType_Hmac160Sha1 E \<notin>
       {SignatureType_Rsa4096Sha1 E, SignatureType_Rsa4096Sha256 E, SignatureType_Rsa2048Sha1 E,
        SignatureType_Rsa2048Sha256 E, SignatureType_Ecc480Sha1 E, SignatureType_Ecc480Sha256 E}"
  shows "certGetCertificateType E (Some d) data_size =
     (if bswap32 (pub_key_type cb) = CertPubKeyType_Rsa4096 E then CertType_SigHmac160_PubKeyRsa4096
      else if bswap32 (pub_key_type cb) = CertPubKeyType_Rsa2048 E then CertType_SigHmac160_PubKeyRsa2048
      else CertType_SigHmac160_PubKeyEcc480)"
  using assms
  by (simp add: certGetCertificateType_def Let_def CERT_TYPE_def not_less [symmetric])

text \<open>An HMAC-160 certificate with an ECC-480 key (type 2), \<open>0x1C\<close> bytes.\<close>

theorem certGetCertificateType_hmac160_witness:
  "SIGNED_CERT_MIN_SIZE cert_env_example \<le> 0x1C \<and> 0x1C \<le> SIGNED_CERT_MAX_SIZE cert_env_example
   \<and> certGetCommonBlock cert_env_example (cert_bytes_example 0x10006 2)
       = Some \<lparr>pub_key_type = 0x02000000\<rparr>
   \<and> certGetSignedCertificateSize cert_env_example (cert_bytes_example 0x10006 2) = 0x1C
   \<and> signatureGetSigType cert_env_example (cert_bytes_example 0x10006 2) True
       = SignatureType_Hmac160Sha1 cert_env_example
   \<and> certGetCertificateType cert_env_example (Some (cert_bytes_example 0x10006 2)) 0x1C
       = CertType_SigHmac160_PubKeyEcc480"
proof -
  have size: "SIGNED_CERT_MIN_SIZE cert_env_example \<le> 0x1C" "0x1C \<le> SIGNED_CERT_MAX_SIZE cert_env_example"
    by (simp_all add: cert_env_example_def)
  have block: "certGetCommonBlock cert_env_example (cert_bytes_example 0x10006 2)
       = Some \<lparr>pub_key_type = 0x02000000\<rparr>"
    by code_simp
  have signed: "certGetSignedCertificateSize cert_env_example (cert_bytes_example 0x10006 2) = 0x1C"
    by code_simp
  have hmac: "signatureGetSigType cert_env_example (cert_bytes_example 0x10006 2) True
       = SignatureType_Hmac160Sha1 cert_env_example"
    by code_simp
  have labels: "SignatureType_Hmac160Sha1 cert_env_example \<notin>
       {SignatureType_Rsa4096Sha1 cert_env_example, SignatureType_Rsa4096Sha256 cert_env_example,
        SignatureType_Rsa2048Sha1 cert_env_example, SignatureType_Rsa2048Sha256 cert_env_example,
        SignatureType_Ecc480Sha1 cert_env_example, SignatureType_Ecc480Sha256 cert_env_example}"
    by (simp add: cert_env_example_def)
  have key: "bswap32 0x02000000 = 2" "CertPubKeyType_Rsa4096 cert_env_example = 0"
    "CertPubKeyType_Rsa2048 cert_env_example = 1"
    by (simp_all add: bswap32_def cert_env_example_def)
  from certGetCertificateType_hmac160 [OF size block _ _ hmac labels] signed
  have "certGetCertificateType cert_env_example (Some (cert_bytes_example 0x10006 2)) 0x1C
       = CertType_SigHmac160_PubKeyEcc480"
    by (simp add: key)
  with size block signed hmac show ?thesis by simp
qed

subsection \<open>The issuer check of the public entry point\<close>

lemma of_char_zero: "of_char c = (0 :: nat) \<longleftrightarrow> c = CHR 0x00"
proof -
  have "of_char (CHR 0x00) = (0 :: nat)" by simp
  then show ?thesis by (metis of_char_eq_iff)
qed

lemma strcmp_zero_iff:
  "CHR 0x00 \<notin> set s \<Longrightarrow> CHR 0x00 \<notin> set t \<Longrightarrow> strcmp s t = 0 \<longleftrightarrow> s = t"
proof (induction s t rule: strcmp.induct)
  case 1
  then show ?case by simp
next
  case (2 y ys)
  then have "of_char y \<noteq> (0 :: nat)"
    by (auto simp add: of_char_zero)
  then show ?case by simp
next
  case (3 x xs)
  then have "of_char x \<noteq> (0 :: nat)"
    by (auto simp add: of_char_zero)
  then show ?case by simp
next
  case (4 x xs y ys)
  show ?case
  proof (cases "x = y")
    case True
    with 4 show ?thesis by simp
  next
    case False
    then have "(of_char x :: nat) \<noteq> of_char y" by simp
    with False show ?thesis by simp
  qed
qed

lemma strcmp_Root_nonzero:
  assumes "CHR 0x00 \<notin> set s" "5 < length s"
  shows "strcmp s ''Root-'' \<noteq> 0"
proof -
  from assms(2) have "s \<noteq> ''Root-''" by auto
  with assms(1) show ?thesis by (simp add: strcmp_zero_iff)
qed

text \<open>
  C1. The claim is that an issuer that starts with \<open>Root-\<close> and is longer passes the
  check of \<open>certRetrieveCertificateChainBySignatureIssuer\<close>. The code compares the whole
  issuer with \<open>strcmp(issuer, "Root-")\<close>, which is zero only for the string \<open>Root-\<close>
  itself, and that string fails \<open>issuer_len <= 5\<close>. So every issuer is rejected: for
  every C string the function returns \<open>InvalidArgument\<close> and leaves the handle and
  \<open>*dst\<close> as they were.
\<close>

theorem certRetrieveCertificateChainBySignatureIssuer_rejects:
  assumes "CHR 0x00 \<notin> set s"
  shows "certRetrieveCertificateChainBySignatureIssuer E g dst (Some s) = Some (Inl InvalidArgument, g, dst)"
proof (cases "length s \<le> 5")
  case True
  then show ?thesis
    by (simp add: certRetrieveCertificateChainBySignatureIssuer_def split: option.splits)
next
  case False
  with assms have "strcmp s ''Root-'' \<noteq> 0"
    by (simp add: strcmp_Root_nonzero)
  then show ?thesis
    by (simp add: certRetrieveCertificateChainBySignatureIssuer_def split: option.splits)
qed

text \<open>The issuer of the claim, with the store that holds both certificates.\<close>

theorem certRetrieveCertificateChainBySignatureIssuer_rejects_witness:
  "CHR 0x00 \<notin> set ''Root-CA00000003-XS00000020''
   \<and> certRetrieveCertificateChainBySignatureIssuer cert_env_example None
         (Some \<lparr>chain_count = 0, chain_certs = None\<rparr>) (Some ''Root-CA00000003-XS00000020'')
       = Some (Inl InvalidArgument, None, Some \<lparr>chain_count = 0, chain_certs = None\<rparr>)"
proof -
  have c_string: "CHR 0x00 \<notin> set ''Root-CA00000003-XS00000020''"
    by simp
  from certRetrieveCertificateChainBySignatureIssuer_rejects [OF c_string] c_string
  show ?thesis by blast
qed

text \<open>
  Behind the check the engine does what the claim expects for this issuer: the static
  function, called with the savefile open, returns the two certificates in the order
  of the names.
\<close>

lemma s_certRetrieveCertificateChain_example:
  "s_certRetrieveCertificateChainBySignatureIssuer cert_env_example (Some ())
     \<lparr>chain_count = 0, chain_certs = None\<rparr> ''Root-CA00000003-XS00000020''
   = Some (Inr (), chain_example)"
  by code_simp

subsection \<open>Counting and splitting the issuer\<close>

lemma toks_of_strtok: "toks_of (strtok s) = tokens s"
  by (simp add: toks_of_def tokens.simps [of s])

lemma count_loop_toks: "count_loop p c = c + word_of_nat (length (toks_of p))"
proof (induction p c rule: count_loop.induct)
  case (1 count)
  then show ?case by (simp add: toks_of_def)
next
  case (2 pch rest count)
  have "toks_of (Some (pch, rest)) = pch # tokens rest"
    by (simp add: toks_of_def)
  with 2 show ?case
    by (simp add: toks_of_strtok)
qed

lemma format_no_args_plain: "CHR ''%'' \<notin> set s \<Longrightarrow> format_no_args s = Some s"
  by (induction s) auto

lemma certGetCertificateCount_plain:
  assumes "5 \<le> length issuer" "CHR ''%'' \<notin> set (drop 5 issuer)"
  shows "certGetCertificateCountInSignatureIssuer (Some issuer)
     = Some (word_of_nat (length (tokens (snprintf_s 0x40 (drop 5 issuer)))))"
  using assms
  by (auto simp add: certGetCertificateCountInSignatureIssuer_def snprintf_fmt_def snprintf_s_def
        format_no_args_plain count_loop_toks toks_of_strtok)

lemma length_tokens: "length (tokens s) \<le> length s"
proof (induction s rule: tokens.induct)
  case (1 s)
  show ?case
  proof (cases "strtok s")
    case None
    then show ?thesis by (simp add: tokens.simps [of s])
  next
    case (Some tr)
    obtain t r where tr: "tr = (t, r)" by (cases tr)
    from 1 [OF Some tr [symmetric]] strtok_shorter [of s t r] Some tr
    show ?thesis by (simp add: tokens.simps [of s])
  qed
qed

text \<open>
  C9. The claim is that for every issuer the count of
  \<open>certGetCertificateCountInSignatureIssuer\<close> is the number of tokens that the loop of
  \<open>_certRetrieveCertificateChainBySignatureIssuer\<close> runs over. The two passes do not
  copy the issuer in the same way: the loop copies it with
  \<open>snprintf(issuer_copy, 0x40, "%s", issuer + 5)\<close>, the count with
  \<open>snprintf(issuer_copy, 0x40, issuer + 5)\<close>, where the issuer is the format. For the
  issuer \<open>Root-%%A...A-B\<close> (60 times \<open>A\<close>) the count works on \<open>%A...A-B\<close>, 63 characters
  with two tokens, and the loop on the first 63 characters \<open>%%A...A-\<close> with one token:
  with a store that resolves every name the call succeeds with \<open>count = 2\<close>, one
  certificate, and the second slot as \<open>calloc\<close> left it.
\<close>

theorem certGetCertificateCount_percent_example:
  "certGetCertificateCountInSignatureIssuer (Some issuer_percent_example) = Some 2
   \<and> tokens (snprintf_s 0x40 (drop 5 issuer_percent_example)) = [''%%'' @ replicate 60 CHR ''A'']
   \<and> s_certRetrieveCertificateChainBySignatureIssuer cert_env_any (Some ())
         \<lparr>chain_count = 0, chain_certs = None\<rparr> issuer_percent_example
       = Some (Inr (),
           \<lparr>chain_count = 2,
            chain_certs = Some
              [\<lparr>cert_type = CertType_SigRsa4096_PubKeyRsa2048, cert_size = 0x48,
                cert_data = cert_bytes_example 0x10003 1 @ replicate 0x10 0\<rparr>,
               zero_Certificate cert_env_any]\<rparr>)"
  by code_simp

text \<open>
  C10. The claim is that for every issuer whose part behind \<open>Root-\<close> has \<open>0x3F\<close> bytes
  or more, both passes work on the first \<open>0x3F\<close> bytes of that part. The loop does
  (\<open>snprintf\<close> with \<open>"%s"\<close>); the count does not when the part contains \<open>%\<close>, since it is
  formatted first and cut afterwards. For the issuer above, whose part has 64 bytes,
  the first \<open>0x3F\<close> bytes hold one token, and the count is 2.
\<close>

theorem certGetCertificateCount_truncation_example:
  "0x3F \<le> length (drop 5 issuer_percent_example)
   \<and> certGetCertificateCountInSignatureIssuer (Some issuer_percent_example) = Some 2
   \<and> count_loop (strtok (take 0x3F (drop 5 issuer_percent_example))) 0 = 1"
  by code_simp

subsection \<open>The retrieval loop\<close>

lemma unat_u32_succ:
  fixes i :: u32
  assumes "unat i < n" "n < 2 ^ 32"
  shows "unat (i + 1) = Suc (unat i)"
proof -
  have "unat i + 1 < 2 ^ 32" using assms by simp
  then show ?thesis by (simp add: unat_word_ariths)
qed

lemma chain_loop_success:
  assumes "chain_loop E g p certs i = Some (Inr (), certs')"
    and "\<forall>j. unat i \<le> j \<and> j < length certs \<longrightarrow> certs ! j = zero_Certificate E"
    and "length certs < 2 ^ 32"
    and "unat i \<le> length certs"
  shows "length certs' = length certs
     \<and> unat i + length (toks_of p) \<le> length certs
     \<and> (\<forall>j < unat i. certs' ! j = certs ! j)
     \<and> (\<forall>k < length (toks_of p).
           s_certRetrieveCertificateByName E g (zero_Certificate E) (toks_of p ! k)
           = (Inr (), certs' ! (unat i + k)))
     \<and> (\<forall>j. unat i + length (toks_of p) \<le> j \<and> j < length certs
           \<longrightarrow> certs' ! j = zero_Certificate E)"
  using assms
proof (induction E g p certs i arbitrary: certs' rule: chain_loop.induct)
  case (1 E g certs i)
  then show ?case by (simp add: toks_of_def)
next
  case (2 E g pch rest certs i)
  from "2.prems"(1) have inb: "unat i < length certs"
    by (simp split: if_splits)
  obtain r c where step: "s_certRetrieveCertificateByName E g (certs ! unat i) pch = (r, c)"
    by (cases "s_certRetrieveCertificateByName E g (certs ! unat i) pch")
  from "2.prems"(1) inb step have r: "r = Inr ()"
    by (cases r) auto
  from "2.prems"(1) inb step r
  have rec: "chain_loop E g (strtok rest) (certs[unat i := c]) (i + 1) = Some (Inr (), certs')"
    by simp
  have suc: "unat (i + 1) = Suc (unat i)"
    using inb "2.prems"(3) by (rule unat_u32_succ)
  have zeros: "\<forall>j. unat (i + 1) \<le> j \<and> j < length (certs[unat i := c])
                 \<longrightarrow> certs[unat i := c] ! j = zero_Certificate E"
    using "2.prems"(2) suc by auto
  have len: "length (certs[unat i := c]) < 2 ^ 32"
    using "2.prems"(3) by simp
  have le: "unat (i + 1) \<le> length (certs[unat i := c])"
    using inb suc by simp
  from "2.IH" [OF _ step [symmetric] r rec zeros len le] inb
  have ih: "length certs' = length certs"
    "unat (i + 1) + length (tokens rest) \<le> length certs"
    "\<forall>j < unat (i + 1). certs' ! j = certs[unat i := c] ! j"
    "\<forall>k < length (tokens rest).
        s_certRetrieveCertificateByName E g (zero_Certificate E) (tokens rest ! k)
        = (Inr (), certs' ! (unat (i + 1) + k))"
    "\<forall>j. unat (i + 1) + length (tokens rest) \<le> j \<and> j < length certs
        \<longrightarrow> certs' ! j = zero_Certificate E"
    by (simp_all add: toks_of_strtok)
  have here: "certs' ! unat i = c"
    using ih(3) suc inb by simp
  have zero_here: "certs ! unat i = zero_Certificate E"
    using "2.prems"(2) inb by simp
  have toks: "toks_of (Some (pch, rest)) = pch # tokens rest"
    by (simp add: toks_of_def)
  have "\<forall>k < length (pch # tokens rest).
           s_certRetrieveCertificateByName E g (zero_Certificate E) ((pch # tokens rest) ! k)
           = (Inr (), certs' ! (unat i + k))"
  proof (intro allI impI)
    fix k assume k: "k < length (pch # tokens rest)"
    show "s_certRetrieveCertificateByName E g (zero_Certificate E) ((pch # tokens rest) ! k)
           = (Inr (), certs' ! (unat i + k))"
    proof (cases k)
      case 0
      then show ?thesis using step r here zero_here by simp
    next
      case (Suc k')
      then show ?thesis using ih(4) k suc by simp
    qed
  qed
  moreover have "\<forall>j < unat i. certs' ! j = certs ! j"
    using ih(3) suc by simp
  ultimately show ?case
    using ih(1,2,5) suc by (simp add: toks)
qed

lemma s_chain_cases:
  assumes "s_certRetrieveCertificateChainBySignatureIssuer E g dst issuer = Some (ret, dst')"
  shows "(g = None \<and> ret = Inl IOError \<and> dst' = dst)
     \<or> (g \<noteq> None \<and> (\<exists>n. certGetCertificateCountInSignatureIssuer (Some issuer) = Some n \<and>
          ((n = 0 \<and> ret = Inl InvalidArgument \<and> dst' = dst\<lparr>chain_count := 0\<rparr>)
           \<or> (n \<noteq> 0 \<and> \<not> calloc_Certificate_ok E n \<and> ret = Inl OutOfMemory
               \<and> dst' = dst\<lparr>chain_count := n, chain_certs := None\<rparr>)
           \<or> (n \<noteq> 0 \<and> calloc_Certificate_ok E n \<and>
               (\<exists>certs.
                  (\<exists>e. chain_loop E g (strtok (snprintf_s 0x40 (drop 5 issuer)))
                          (replicate (unat n) (zero_Certificate E)) 0 = Some (Inl e, certs)
                       \<and> ret = Inl e \<and> dst' = \<lparr>chain_count = 0, chain_certs = None\<rparr>)
                  \<or> (chain_loop E g (strtok (snprintf_s 0x40 (drop 5 issuer)))
                          (replicate (unat n) (zero_Certificate E)) 0 = Some (Inr (), certs)
                       \<and> ret = Inr () \<and> dst' = dst\<lparr>chain_count := n, chain_certs := Some certs\<rparr>))))))"
  using assms
  unfolding s_certRetrieveCertificateChainBySignatureIssuer_def Let_def certFreeCertificateChain_def
  by (auto split: option.splits if_splits sum.splits prod.splits)

text \<open>
  What the loop guarantees. For every run of
  \<open>_certRetrieveCertificateChainBySignatureIssuer\<close> that returns,
  with \<open>toks\<close> the tokens of the copied issuer (the tokens the loop runs over) and each
  certificate retrieved into a zeroed slot:
  \<^item> if it returns \<open>true\<close>, the array has \<open>count\<close> slots and, for every token in order,
    the slot of that token holds the certificate that
    \<open>_certRetrieveCertificateByName\<close> retrieved successfully for it;
  \<^item> if the retrieval of any token fails, it returns \<open>false\<close>;
  \<^item> if it returns \<open>false\<close> after the array was allocated, \<open>*dst\<close> is the released
    chain: no array and a count of 0.
  So no chain with a slot whose retrieval failed is returned. The slots may be more than
  the tokens (see C5 and C9 below).
\<close>

theorem s_certRetrieveCertificateChain_all_or_nothing:
  assumes run: "s_certRetrieveCertificateChainBySignatureIssuer E g dst issuer = Some (ret, dst')"
  shows "(ret = Inr () \<longrightarrow>
            (\<exists>cs. chain_certs dst' = Some cs \<and> length cs = unat (chain_count dst')
               \<and> length (tokens (snprintf_s 0x40 (drop 5 issuer))) \<le> length cs
               \<and> (\<forall>k < length (tokens (snprintf_s 0x40 (drop 5 issuer))).
                     s_certRetrieveCertificateByName E g (zero_Certificate E)
                       (tokens (snprintf_s 0x40 (drop 5 issuer)) ! k) = (Inr (), cs ! k))))
     \<and> (g \<noteq> None
          \<and> (\<exists>k < length (tokens (snprintf_s 0x40 (drop 5 issuer))).
                isl (fst (s_certRetrieveCertificateByName E g (zero_Certificate E)
                            (tokens (snprintf_s 0x40 (drop 5 issuer)) ! k))))
          \<longrightarrow> isl ret)
     \<and> (isl ret \<and> g \<noteq> None
          \<and> (\<exists>n. certGetCertificateCountInSignatureIssuer (Some issuer) = Some n \<and> n \<noteq> 0
                 \<and> calloc_Certificate_ok E n)
          \<longrightarrow> dst' = \<lparr>chain_count = 0, chain_certs = None\<rparr>)"
proof -
  let ?toks = "tokens (snprintf_s 0x40 (drop 5 issuer))"
  let ?R = "s_certRetrieveCertificateByName E g (zero_Certificate E)"
  have success: "\<exists>cs. chain_certs dst' = Some cs \<and> length cs = unat (chain_count dst')
               \<and> length ?toks \<le> length cs
               \<and> (\<forall>k < length ?toks. ?R (?toks ! k) = (Inr (), cs ! k))"
    if ok: "ret = Inr ()"
  proof -
    from s_chain_cases [OF run] ok obtain n certs where
      loop: "chain_loop E g (strtok (snprintf_s 0x40 (drop 5 issuer)))
               (replicate (unat n) (zero_Certificate E)) 0 = Some (Inr (), certs)"
      and dst': "dst' = dst\<lparr>chain_count := n, chain_certs := Some certs\<rparr>"
      by auto
    have "unat n < (2 :: nat) ^ LENGTH(32)"
      by (rule unsigned_less)
    then have "length (replicate (unat n) (zero_Certificate E)) < 2 ^ 32"
      by simp
    from chain_loop_success [OF loop _ this]
    have "length certs = unat n" "length ?toks \<le> unat n"
      "\<forall>k < length ?toks. ?R (?toks ! k) = (Inr (), certs ! k)"
      by (simp_all add: toks_of_strtok)
    with dst' show ?thesis by simp
  qed
  have failure: "isl ret"
    if bad: "\<exists>k < length ?toks. isl (fst (?R (?toks ! k)))"
  proof (rule ccontr)
    assume "\<not> isl ret"
    then have "ret = Inr ()" by (cases ret) auto
    from success [OF this] bad show False by auto
  qed
  have released: "dst' = \<lparr>chain_count = 0, chain_certs = None\<rparr>"
    if "isl ret" "g \<noteq> None"
      "\<exists>n. certGetCertificateCountInSignatureIssuer (Some issuer) = Some n \<and> n \<noteq> 0
           \<and> calloc_Certificate_ok E n"
    using s_chain_cases [OF run] that by auto
  from success failure released show ?thesis by blast
qed


lemma s_certRetrieveCertificateChain_example_missing:
  "s_certRetrieveCertificateChainBySignatureIssuer cert_env_example (Some ())
     \<lparr>chain_count = 0, chain_certs = None\<rparr> ''Root-CA00000003-XS00000021''
   = Some (Inl NotFound, \<lparr>chain_count = 0, chain_certs = None\<rparr>)"
  by code_simp

lemma tokens_example:
  "tokens (snprintf_s 0x40 (drop 5 ''Root-CA00000003-XS00000020'')) = [''CA00000003'', ''XS00000020'']"
  "tokens (snprintf_s 0x40 (drop 5 ''Root-CA00000003-XS00000021'')) = [''CA00000003'', ''XS00000021'']"
  by code_simp+

text \<open>
  With the example store: for \<open>Root-CA00000003-XS00000021\<close> the second name is missing,
  the call fails and leaves the released chain; for \<open>Root-CA00000003-XS00000020\<close> it
  returns the two certificates, each the one retrieved for its token.
\<close>

theorem s_certRetrieveCertificateChain_all_or_nothing_witness:
  "s_certRetrieveCertificateChainBySignatureIssuer cert_env_example (Some ())
     \<lparr>chain_count = 0, chain_certs = None\<rparr> ''Root-CA00000003-XS00000021''
     = Some (Inl NotFound, \<lparr>chain_count = 0, chain_certs = None\<rparr>)
   \<and> isl (fst (s_certRetrieveCertificateByName cert_env_example (Some ())
                 (zero_Certificate cert_env_example) ''XS00000021''))
   \<and> s_certRetrieveCertificateChainBySignatureIssuer cert_env_example (Some ())
       \<lparr>chain_count = 0, chain_certs = None\<rparr> ''Root-CA00000003-XS00000020''
     = Some (Inr (), chain_example)
   \<and> (\<exists>cs. chain_certs chain_example = Some cs \<and> length cs = 2
        \<and> s_certRetrieveCertificateByName cert_env_example (Some ())
             (zero_Certificate cert_env_example) ''CA00000003'' = (Inr (), cs ! 0)
        \<and> s_certRetrieveCertificateByName cert_env_example (Some ())
             (zero_Certificate cert_env_example) ''XS00000020'' = (Inr (), cs ! 1))"
proof -
  note good = s_certRetrieveCertificateChain_all_or_nothing
    [OF s_certRetrieveCertificateChain_example, THEN conjunct1, rule_format, OF refl]
  note bad = s_certRetrieveCertificateChain_all_or_nothing
    [OF s_certRetrieveCertificateChain_example_missing]
  have missing: "isl (fst (s_certRetrieveCertificateByName cert_env_example (Some ())
                 (zero_Certificate cert_env_example) ''XS00000021''))"
    by code_simp
  from good obtain cs where cs: "chain_certs chain_example = Some cs"
    "length cs = unat (chain_count chain_example)"
    "\<forall>k < 2. s_certRetrieveCertificateByName cert_env_example (Some ())
             (zero_Certificate cert_env_example) ([''CA00000003'', ''XS00000020''] ! k) = (Inr (), cs ! k)"
    unfolding tokens_example by auto
  have "length cs = 2"
    using cs(2) by (simp add: chain_example_def)
  moreover have "s_certRetrieveCertificateByName cert_env_example (Some ())
             (zero_Certificate cert_env_example) ''CA00000003'' = (Inr (), cs ! 0)"
    using cs(3) [rule_format, of 0] by simp
  moreover have "s_certRetrieveCertificateByName cert_env_example (Some ())
             (zero_Certificate cert_env_example) ''XS00000020'' = (Inr (), cs ! 1)"
    using cs(3) [rule_format, of 1] by simp
  ultimately show ?thesis
    using cs(1) missing s_certRetrieveCertificateChain_example
      s_certRetrieveCertificateChain_example_missing by blast
qed

text \<open>
  C5. The claim is that a retrieval failure releases the chain and fails the call, so
  that a chain returned is fully populated, one certificate per token, and no partially
  populated chain is ever observed. The first part holds (the theorem above). The
  second does not: the array is allocated for the count of
  \<open>certGetCertificateCountInSignatureIssuer\<close>, which formats the issuer (see C9), and the
  loop fills one slot per token of the unformatted copy. For the issuer
  \<open>Root-%%A...A-B\<close> (60 times \<open>A\<close>) and a store that resolves every name, no retrieval
  fails, the call returns \<open>true\<close>, and the caller gets a chain of \<open>count = 2\<close> whose
  second slot is as \<open>calloc\<close> left it: type \<open>CertType_None\<close>, size 0.
\<close>

theorem s_certRetrieveCertificateChain_partial_example:
  "\<exists>cs. s_certRetrieveCertificateChainBySignatureIssuer cert_env_any (Some ())
            \<lparr>chain_count = 0, chain_certs = None\<rparr> issuer_percent_example
          = Some (Inr (), \<lparr>chain_count = 2, chain_certs = Some cs\<rparr>)
        \<and> length cs = 2
        \<and> cert_type (cs ! 0) = CertType_SigRsa4096_PubKeyRsa2048
        \<and> cs ! 1 = zero_Certificate cert_env_any
        \<and> cert_type (cs ! 1) = CertType_None \<and> cert_size (cs ! 1) = 0"
  by (rule exI [of _ "[\<lparr>cert_type = CertType_SigRsa4096_PubKeyRsa2048, cert_size = 0x48,
                         cert_data = cert_bytes_example 0x10003 1 @ replicate 0x10 0\<rparr>,
                       zero_Certificate cert_env_any]"]) code_simp

text \<open>
  For an issuer of at least five characters whose part behind them contains no \<open>%\<close>, the
  two passes agree: the count is the number of tokens of the first \<open>0x3F\<close> characters
  of that part (at most \<open>0x3F\<close>), which are the tokens the loop runs over, and a chain
  returned has that count and that many slots. \<open>Root-A-B-C\<close> gives 3.
\<close>

theorem count_matches_tokens_without_percent:
  assumes "5 \<le> length issuer" "CHR ''%'' \<notin> set (drop 5 issuer)"
  shows "certGetCertificateCountInSignatureIssuer (Some issuer)
           = Some (word_of_nat (length (tokens (snprintf_s 0x40 (drop 5 issuer)))))
     \<and> length (tokens (snprintf_s 0x40 (drop 5 issuer))) \<le> 0x3F
     \<and> (s_certRetrieveCertificateChainBySignatureIssuer E g dst issuer = Some (Inr (), chain)
          \<longrightarrow> unat (chain_count chain) = length (tokens (snprintf_s 0x40 (drop 5 issuer)))
            \<and> (\<exists>cs. chain_certs chain = Some cs
                  \<and> length cs = length (tokens (snprintf_s 0x40 (drop 5 issuer)))))"
proof -
  let ?toks = "tokens (snprintf_s 0x40 (drop 5 issuer))"
  have count: "certGetCertificateCountInSignatureIssuer (Some issuer) = Some (word_of_nat (length ?toks))"
    using assms by (rule certGetCertificateCount_plain)
  have "length ?toks \<le> length (snprintf_s 0x40 (drop 5 issuer))"
    by (rule length_tokens)
  then have short: "length ?toks \<le> 0x3F"
    by (simp add: snprintf_s_def)
  then have unat: "unat (word_of_nat (length ?toks) :: u32) = length ?toks"
    by (simp add: unat_of_nat)
  have "unat (chain_count chain) = length ?toks
        \<and> (\<exists>cs. chain_certs chain = Some cs \<and> length cs = length ?toks)"
    if run: "s_certRetrieveCertificateChainBySignatureIssuer E g dst issuer = Some (Inr (), chain)"
  proof -
    from s_chain_cases [OF run] count obtain certs where
      loop: "chain_loop E g (strtok (snprintf_s 0x40 (drop 5 issuer)))
               (replicate (length ?toks) (zero_Certificate E)) 0 = Some (Inr (), certs)"
      and chain: "chain = dst\<lparr>chain_count := word_of_nat (length ?toks), chain_certs := Some certs\<rparr>"
      by (auto simp add: unat)
    have "length (replicate (length ?toks) (zero_Certificate E)) < 2 ^ 32"
      using short by simp
    from chain_loop_success [OF loop _ this] have "length certs = length ?toks"
      by simp
    with chain unat show ?thesis by simp
  qed
  with count short show ?thesis by blast
qed

lemma s_certRetrieveCertificateChain_example_ABC:
  "s_certRetrieveCertificateChainBySignatureIssuer cert_env_any (Some ())
         \<lparr>chain_count = 0, chain_certs = None\<rparr> ''Root-A-B-C''
       = Some (Inr (),
           \<lparr>chain_count = 3,
            chain_certs = Some (replicate 3
              \<lparr>cert_type = CertType_SigRsa4096_PubKeyRsa2048, cert_size = 0x48,
               cert_data = cert_bytes_example 0x10003 1 @ replicate 0x10 0\<rparr>)\<rparr>)"
  by code_simp

theorem count_matches_tokens_without_percent_witness:
  "5 \<le> length ''Root-A-B-C'' \<and> CHR ''%'' \<notin> set (drop 5 ''Root-A-B-C'')
   \<and> certGetCertificateCountInSignatureIssuer (Some ''Root-A-B-C'') = Some 3
   \<and> tokens (snprintf_s 0x40 (drop 5 ''Root-A-B-C'')) = [''A'', ''B'', ''C'']
   \<and> (\<exists>chain cs. s_certRetrieveCertificateChainBySignatureIssuer cert_env_any (Some ())
                     \<lparr>chain_count = 0, chain_certs = None\<rparr> ''Root-A-B-C'' = Some (Inr (), chain)
          \<and> chain_count chain = 3 \<and> chain_certs chain = Some cs \<and> length cs = 3)"
proof -
  have len: "5 \<le> length ''Root-A-B-C''" and plain: "CHR ''%'' \<notin> set (drop 5 ''Root-A-B-C'')"
    by simp_all
  have toks: "tokens (snprintf_s 0x40 (drop 5 ''Root-A-B-C'')) = [''A'', ''B'', ''C'']"
    by code_simp
  note inst = count_matches_tokens_without_percent
    [OF len plain, where E = cert_env_any and g = "Some ()"
       and dst = "\<lparr>chain_count = 0, chain_certs = None\<rparr>"]
  from inst have count: "certGetCertificateCountInSignatureIssuer (Some ''Root-A-B-C'') = Some 3"
    unfolding toks by simp
  from inst [THEN conjunct2, THEN conjunct2, rule_format, OF s_certRetrieveCertificateChain_example_ABC]
  obtain cs where "chain_certs \<lparr>chain_count = 3 :: u32,
            chain_certs = Some (replicate 3
              \<lparr>cert_type = CertType_SigRsa4096_PubKeyRsa2048, cert_size = 0x48,
               cert_data = cert_bytes_example 0x10003 1 @ replicate 0x10 0\<rparr>)\<rparr> = Some cs" "length cs = 3"
    unfolding toks by auto
  with len plain toks count s_certRetrieveCertificateChain_example_ABC show ?thesis
    by auto
qed

subsection \<open>The raw chain\<close>

lemma cert_ok_zero: "cert_ok E (zero_Certificate E)"
  by (simp add: cert_ok_def zero_Certificate_def)

lemma length_buf_write: "length bs \<le> length buf \<Longrightarrow> length (buf_write buf bs) = length buf"
  by (simp add: buf_write_def)

lemma s_certRetrieveCertificateByName_ok:
  assumes "cert_ok E dst" "s_certRetrieveCertificateByName E g dst name = (r, c)"
  shows "cert_ok E c"
proof -
  have len: "length (buf_write (cert_data dst) (take (unat n) bs)) = length (cert_data dst)"
    if "n \<le> SIGNED_CERT_MAX_SIZE E" for n :: u64 and bs
  proof -
    have "unat n \<le> length (cert_data dst)"
      using that assms(1) by (simp add: cert_ok_def word_le_nat_alt)
    then show ?thesis by (simp add: length_buf_write)
  qed
  show ?thesis
    using assms len
    unfolding s_certRetrieveCertificateByName_def Let_def
    by (auto simp add: cert_ok_def not_less split: option.splits if_splits prod.splits)
qed

lemma chain_loop_ok:
  assumes "chain_loop E g p certs i = Some (r, certs')" "\<forall>c \<in> set certs. cert_ok E c"
  shows "(\<forall>c \<in> set certs'. cert_ok E c) \<and> length certs' = length certs"
  using assms
proof (induction E g p certs i arbitrary: r certs' rule: chain_loop.induct)
  case (1 E g certs i)
  then show ?case by simp
next
  case (2 E g pch rest certs i)
  from "2.prems"(1) have inb: "unat i < length certs"
    by (simp split: if_splits)
  obtain r0 c where step: "s_certRetrieveCertificateByName E g (certs ! unat i) pch = (r0, c)"
    by (cases "s_certRetrieveCertificateByName E g (certs ! unat i) pch")
  have "cert_ok E (certs ! unat i)"
    using "2.prems"(2) inb by simp
  then have c: "cert_ok E c"
    using step by (rule s_certRetrieveCertificateByName_ok)
  have upd: "\<forall>x \<in> set (certs[unat i := c]). cert_ok E x"
    using "2.prems"(2) c by (auto dest: set_update_subset_insert [THEN subsetD])
  show ?case
  proof (cases r0)
    case (Inl e)
    with "2.prems"(1) inb step have "certs' = certs[unat i := c]" by simp
    with upd show ?thesis by simp
  next
    case (Inr u)
    with "2.prems"(1) inb step
    have rec: "chain_loop E g (strtok rest) (certs[unat i := c]) (i + 1) = Some (r, certs')"
      by simp
    from "2.IH" [OF _ step [symmetric] Inr rec upd] inb show ?thesis by simp
  qed
qed

lemma fold_nth: "fold (\<lambda>i. f (xs ! i)) [0..<length xs] a = fold f xs a"
proof -
  have "fold (\<lambda>i. f (xs ! i)) [0..<length xs] a = fold f (map ((!) xs) [0..<length xs]) a"
    by (simp add: fold_map comp_def)
  then show ?thesis by (simp add: map_nth)
qed

lemma sum_sizes_bound:
  assumes "\<forall>c \<in> set cs. unat (cert_size c) \<le> m"
  shows "sum_list (map (\<lambda>c. unat (cert_size c)) cs) \<le> length cs * m"
  using assms by (induction cs) auto

lemma unat_fold_sizes:
  fixes a :: u64
  assumes "unat a + sum_list (map (\<lambda>c. unat (cert_size c)) cs) < 2 ^ 64"
  shows "unat (fold (\<lambda>c chain_size. chain_size + cert_size c) cs a)
       = unat a + sum_list (map (\<lambda>c. unat (cert_size c)) cs)"
  using assms
proof (induction cs arbitrary: a)
  case Nil
  then show ?case by simp
next
  case (Cons c cs)
  from Cons.prems have "unat a + unat (cert_size c) < 2 ^ 64" by simp
  then have step: "unat (a + cert_size c) = unat a + unat (cert_size c)"
    by (simp add: unat_word_ariths)
  with Cons.prems have "unat (a + cert_size c) + sum_list (map (\<lambda>c. unat (cert_size c)) cs) < 2 ^ 64"
    by simp
  from Cons.IH [OF this] step show ?case by simp
qed

lemma fold_copy:
  assumes "pos + sum_list (map (\<lambda>c. unat (cert_size c)) cs) \<le> length buf"
    and "\<forall>c \<in> set cs. unat (cert_size c) \<le> length (cert_data c)"
  shows "fold (\<lambda>c (buf, dst_u8).
                 (memcpy_at buf dst_u8 (cert_data c) (unat (cert_size c)), dst_u8 + unat (cert_size c)))
              cs (buf, pos)
       = (take pos buf @ concat (map cert_bytes cs)
            @ drop (pos + sum_list (map (\<lambda>c. unat (cert_size c)) cs)) buf,
          pos + sum_list (map (\<lambda>c. unat (cert_size c)) cs))"
  using assms
proof (induction cs arbitrary: buf pos)
  case Nil
  then show ?case by simp
next
  case (Cons c cs)
  let ?n = "unat (cert_size c)"
  let ?buf = "memcpy_at buf pos (cert_data c) ?n"
  let ?rest = "sum_list (map (\<lambda>c. unat (cert_size c)) cs)"
  from Cons.prems have n: "?n \<le> length (cert_data c)" and fit: "pos + ?n + ?rest \<le> length buf"
    by simp_all
  have len: "length ?buf = length buf"
    using n fit by (simp add: memcpy_at_def)
  have front: "take (pos + ?n) ?buf = take pos buf @ cert_bytes c"
    using n fit by (simp add: memcpy_at_def cert_bytes_def)
  have behind: "drop (pos + ?n + ?rest) ?buf = drop (pos + ?n + ?rest) buf"
    using n fit by (simp add: memcpy_at_def ac_simps)
  have "fold (\<lambda>c (buf, dst_u8).
                 (memcpy_at buf dst_u8 (cert_data c) (unat (cert_size c)), dst_u8 + unat (cert_size c)))
              cs (?buf, pos + ?n)
       = (take (pos + ?n) ?buf @ concat (map cert_bytes cs) @ drop (pos + ?n + ?rest) ?buf,
          pos + ?n + ?rest)"
    using Cons.IH [of "pos + ?n" ?buf] Cons.prems(2) fit len by simp
  moreover have "drop (pos + (?n + ?rest)) ?buf = drop (pos + (?n + ?rest)) buf"
    using behind by (simp add: add.assoc)
  ultimately show ?case
    by (simp add: front add.assoc)
qed

lemma split_by_concat:
  "split_by (map length segs) (concat segs) = segs"
  by (induction segs) auto

text \<open>
  What the two helpers of the serializer do. For every chain that
  \<open>_certRetrieveCertificateChainBySignatureIssuer\<close> returns
  (certificates of at most \<open>2^32\<close> bytes), whatever the block that \<open>malloc\<close> returns
  holds: the size that \<open>certCalculateRawCertificateChainSize\<close> computes, which is the
  size of the block and of the buffer returned, is the sum of the certificates' sizes
  without wrapping; after \<open>certCopyCertificateChainDataToMemoryBuffer\<close> the buffer has
  that length; and cutting it into consecutive segments of the certificates' sizes, in
  the order of the chain, gives back the bytes of each certificate.
\<close>

theorem raw_chain_round_trip:
  assumes run: "s_certRetrieveCertificateChainBySignatureIssuer E g dst issuer = Some (Inr (), chain)"
    and max: "unat (SIGNED_CERT_MAX_SIZE E) \<le> 2 ^ 32"
    and raw0: "length raw0 = unat (certCalculateRawCertificateChainSize (Some chain))"
  shows "\<exists>cs. chain_certs chain = Some cs
     \<and> unat (certCalculateRawCertificateChainSize (Some chain))
         = sum_list (map (\<lambda>c. unat (cert_size c)) cs)
     \<and> length (certCopyCertificateChainDataToMemoryBuffer raw0 (Some chain))
         = sum_list (map (\<lambda>c. unat (cert_size c)) cs)
     \<and> split_by (map (\<lambda>c. unat (cert_size c)) cs)
           (certCopyCertificateChainDataToMemoryBuffer raw0 (Some chain))
         = map cert_bytes cs"
proof -
  let ?sizes = "\<lambda>cs. map (\<lambda>c. unat (cert_size c)) cs"
  from s_chain_cases [OF run] obtain n certs where
    n: "n \<noteq> 0"
    and loop: "chain_loop E g (strtok (snprintf_s 0x40 (drop 5 issuer)))
               (replicate (unat n) (zero_Certificate E)) 0 = Some (Inr (), certs)"
    and chain: "chain = dst\<lparr>chain_count := n, chain_certs := Some certs\<rparr>"
    by auto
  have "\<forall>c \<in> set (replicate (unat n) (zero_Certificate E)). cert_ok E c"
    by (simp add: cert_ok_zero)
  from chain_loop_ok [OF loop this]
  have ok: "\<forall>c \<in> set certs. cert_ok E c" and len: "length certs = unat n"
    by simp_all
  have fits: "\<forall>c \<in> set certs. unat (cert_size c) \<le> length (cert_data c)"
    and small: "\<forall>c \<in> set certs. unat (cert_size c) \<le> unat (SIGNED_CERT_MAX_SIZE E)"
    using ok by (auto simp add: cert_ok_def word_le_nat_alt)
  have "unat n < (2 :: nat) ^ LENGTH(32)"
    by (rule unsigned_less)
  then have "length certs \<le> 2 ^ 32 - 1"
    using len by simp
  then have "length certs * unat (SIGNED_CERT_MAX_SIZE E) \<le> (2 ^ 32 - 1) * 2 ^ 32"
    using max by (rule mult_le_mono)
  also have "\<dots> < (2 :: nat) ^ 64"
    by simp
  finally have sum: "sum_list (?sizes certs) < 2 ^ 64"
    using sum_sizes_bound [OF small] by simp
  have calc: "certCalculateRawCertificateChainSize (Some chain)
              = fold (\<lambda>c chain_size. chain_size + cert_size c) certs 0"
    using n fold_nth [of "\<lambda>c chain_size. chain_size + cert_size c" certs 0]
    by (simp add: certCalculateRawCertificateChainSize_def chain len)
  have size: "unat (certCalculateRawCertificateChainSize (Some chain)) = sum_list (?sizes certs)"
    unfolding calc using unat_fold_sizes [of 0 certs] sum by simp
  have copy: "certCopyCertificateChainDataToMemoryBuffer raw0 (Some chain)
              = fst (fold (\<lambda>c (buf, dst_u8).
                       (memcpy_at buf dst_u8 (cert_data c) (unat (cert_size c)),
                        dst_u8 + unat (cert_size c))) certs (raw0, 0))"
    using n fold_nth [of "\<lambda>c (buf, dst_u8).
                       (memcpy_at buf dst_u8 (cert_data c) (unat (cert_size c)),
                        dst_u8 + unat (cert_size c))" certs "(raw0, 0)"]
    by (simp add: certCopyCertificateChainDataToMemoryBuffer_def chain len)
  have raw: "certCopyCertificateChainDataToMemoryBuffer raw0 (Some chain)
             = concat (map cert_bytes certs)"
    unfolding copy using fold_copy [of 0 certs raw0] fits raw0 size by simp
  have lengths: "map length (map cert_bytes certs) = ?sizes certs"
    using fits by (simp add: cert_bytes_def)
  have "length (concat (map cert_bytes certs)) = sum_list (map length (map cert_bytes certs))"
    by (simp only: length_concat)
  then have "length (concat (map cert_bytes certs)) = sum_list (?sizes certs)"
    by (simp only: lengths)
  moreover have "split_by (?sizes certs) (concat (map cert_bytes certs)) = map cert_bytes certs"
    using split_by_concat [of "map cert_bytes certs"] by (simp only: lengths)
  ultimately show ?thesis
    using size raw chain by simp
qed


text \<open>
  The chain of the example store: \<open>0x48 + 0x38\<close> bytes, the two certificates back to
  back, and the split gives each back.
\<close>

theorem raw_chain_round_trip_witness:
  "s_certRetrieveCertificateChainBySignatureIssuer cert_env_example (Some ())
       \<lparr>chain_count = 0, chain_certs = None\<rparr> ''Root-CA00000003-XS00000020''
     = Some (Inr (), chain_example)
   \<and> unat (SIGNED_CERT_MAX_SIZE cert_env_example) \<le> 2 ^ 32
   \<and> length (replicate 0x80 (0xFF :: u8)) = unat (certCalculateRawCertificateChainSize (Some chain_example))
   \<and> certCalculateRawCertificateChainSize (Some chain_example) = 0x80
   \<and> length (certCopyCertificateChainDataToMemoryBuffer (replicate 0x80 0xFF) (Some chain_example)) = 0x80
   \<and> split_by [0x48, 0x38]
         (certCopyCertificateChainDataToMemoryBuffer (replicate 0x80 0xFF) (Some chain_example))
       = [cert_bytes_example 0x10003 1, cert_bytes_example 0x10004 1]"
proof -
  have max: "unat (SIGNED_CERT_MAX_SIZE cert_env_example) \<le> 2 ^ 32"
    by (simp add: cert_env_example_def)
  have size: "certCalculateRawCertificateChainSize (Some chain_example) = 0x80"
    by code_simp
  have raw0: "length (replicate 0x80 (0xFF :: u8))
              = unat (certCalculateRawCertificateChainSize (Some chain_example))"
    by (simp add: size)
  have bytes: "map cert_bytes (the (chain_certs chain_example))
               = [cert_bytes_example 0x10003 1, cert_bytes_example 0x10004 1]"
    by code_simp
  from raw_chain_round_trip [OF s_certRetrieveCertificateChain_example max raw0]
  have "length (certCopyCertificateChainDataToMemoryBuffer (replicate 0x80 0xFF) (Some chain_example)) = 0x80"
    "split_by [0x48, 0x38]
         (certCopyCertificateChainDataToMemoryBuffer (replicate 0x80 0xFF) (Some chain_example))
       = [cert_bytes_example 0x10003 1, cert_bytes_example 0x10004 1]"
    using bytes by (auto simp add: chain_example_def)
  with s_certRetrieveCertificateChain_example max raw0 size show ?thesis
    by blast
qed



end
